theory Spec2Isabelle
  imports Main "HOL-Library.List_Lexorder"
begin

section \<open>Python values used by the medical cabinet\<close>

text \<open>
  A Python \<^verbatim>\<open>str\<close> is a sequence of Unicode code points; \<^verbatim>\<open>len\<close> counts code points and
  comparison is lexicographic on them. A string is therefore a list of code points, ordered
  by the lexicographic order of lists. \<open>py\<close> embeds an ASCII literal.
\<close>

type_synonym pystr = "nat list"

definition py :: "string \<Rightarrow> pystr" where
  "py s = map of_char s"

text \<open>
  \<^verbatim>\<open>str.isdecimal\<close> is true of the characters of Unicode category Nd; these are also the
  characters that \<^verbatim>\<open>\d\<close> matches in a \<^verbatim>\<open>str\<close> pattern of the \<^verbatim>\<open>re\<close> module. \<^verbatim>\<open>str.isdigit\<close> is
  true of these and of the characters whose Numeric_Type is Digit (superscripts, circled
  digits and so on). The two tables are those of Unicode 14.0 (CPython 3.11), as inclusive
  ranges of code points.
\<close>

definition decimal_ranges :: "(nat \<times> nat) list" where
  "decimal_ranges =
    [(48, 57), (1632, 1641), (1776, 1785), (1984, 1993), (2406, 2415), (2534, 2543),
     (2662, 2671), (2790, 2799), (2918, 2927), (3046, 3055), (3174, 3183), (3302, 3311),
     (3430, 3439), (3558, 3567), (3664, 3673), (3792, 3801), (3872, 3881), (4160, 4169),
     (4240, 4249), (6112, 6121), (6160, 6169), (6470, 6479), (6608, 6617), (6784, 6793),
     (6800, 6809), (6992, 7001), (7088, 7097), (7232, 7241), (7248, 7257), (42528, 42537),
     (43216, 43225), (43264, 43273), (43472, 43481), (43504, 43513), (43600, 43609),
     (44016, 44025), (65296, 65305), (66720, 66729), (68912, 68921), (69734, 69743),
     (69872, 69881), (69942, 69951), (70096, 70105), (70384, 70393), (70736, 70745),
     (70864, 70873), (71248, 71257), (71360, 71369), (71472, 71481), (71904, 71913),
     (72016, 72025), (72784, 72793), (73040, 73049), (73120, 73129), (92768, 92777),
     (92864, 92873), (93008, 93017), (120782, 120831), (123200, 123209), (123632, 123641),
     (125264, 125273), (130032, 130041)]"

definition other_digit_ranges :: "(nat \<times> nat) list" where
  "other_digit_ranges =
    [(178, 179), (185, 185), (4969, 4977), (6618, 6618), (8304, 8304), (8308, 8313),
     (8320, 8329), (9312, 9320), (9332, 9340), (9352, 9360), (9450, 9450), (9461, 9469),
     (9471, 9471), (10102, 10110), (10112, 10120), (10122, 10130), (68160, 68163),
     (69216, 69224), (69714, 69722), (127232, 127242)]"

definition in_ranges :: "(nat \<times> nat) list \<Rightarrow> nat \<Rightarrow> bool" where
  "in_ranges rs c = list_ex (\<lambda>(lo, hi). lo \<le> c \<and> c \<le> hi) rs"

definition isdecimal_char :: "nat \<Rightarrow> bool" where
  "isdecimal_char c = in_ranges decimal_ranges c"

definition isdigit_char :: "nat \<Rightarrow> bool" where
  "isdigit_char c = (isdecimal_char c \<or> in_ranges other_digit_ranges c)"

text \<open>\<^verbatim>\<open>s.isdigit()\<close>: every character is a digit and there is at least one character.\<close>

definition isdigit :: "pystr \<Rightarrow> bool" where
  "isdigit s = (s \<noteq> [] \<and> list_all isdigit_char s)"

text \<open>The ASCII digits \<^verbatim>\<open>0\<close> to \<^verbatim>\<open>9\<close>, code points 48 to 57.\<close>

definition ascii_digit :: "nat \<Rightarrow> bool" where
  "ascii_digit c = (48 \<le> c \<and> c \<le> 57)"

text \<open>
  \<^verbatim>\<open>"%0wd" % n\<close> for a number of at most \<open>w\<close> digits: the decimal digits of \<open>n\<close>, padded with
  zeros on the left to width \<open>w\<close>. The fields of a \<^verbatim>\<open>date\<close> or \<^verbatim>\<open>datetime\<close> object always fit
  the width they are printed with.
\<close>

fun zero_padded :: "nat \<Rightarrow> nat \<Rightarrow> pystr" where
  "zero_padded 0 n = []"
| "zero_padded (Suc w) n = zero_padded w (n div 10) @ [48 + n mod 10]"

text \<open>\<^verbatim>\<open>str(n)\<close> for an integer: decimal digits, with a minus sign when negative.\<close>

fun str_nat :: "nat \<Rightarrow> pystr" where
  "str_nat n = (if n < 10 then [48 + n] else str_nat (n div 10) @ [48 + n mod 10])"

declare str_nat.simps [simp del]

definition str_int :: "int \<Rightarrow> pystr" where
  "str_int i = (if i < 0 then 45 # str_nat (nat (- i)) else str_nat (nat i))"

section \<open>Domain entities\<close>

subsection \<open>Dates and date-times\<close>

text \<open>
  \<^verbatim>\<open>datetime.date\<close> and naive \<^verbatim>\<open>datetime.datetime\<close> objects, by their fields. Python builds
  such an object only from fields in range, which \<open>valid_date\<close> and \<open>valid_datetime\<close> say.
\<close>

record date =
  d_year :: nat
  d_month :: nat
  d_day :: nat

record datetime =
  year :: nat
  month :: nat
  day :: nat
  hour :: nat
  minute :: nat
  second :: nat
  microsecond :: nat

definition is_leap :: "nat \<Rightarrow> bool" where
  "is_leap y = (y mod 4 = 0 \<and> (y mod 100 \<noteq> 0 \<or> y mod 400 = 0))"

definition days_in_month :: "nat \<Rightarrow> nat \<Rightarrow> nat" where
  "days_in_month y m =
     (if m = 2 then (if is_leap y then 29 else 28)
      else if m \<in> set [4, 6, 9, 11] then 30 else 31)"

definition valid_ymd :: "nat \<Rightarrow> nat \<Rightarrow> nat \<Rightarrow> bool" where
  "valid_ymd y m d = (1 \<le> y \<and> y \<le> 9999 \<and> 1 \<le> m \<and> m \<le> 12 \<and> 1 \<le> d \<and> d \<le> days_in_month y m)"

definition valid_date :: "date \<Rightarrow> bool" where
  "valid_date d = valid_ymd (d_year d) (d_month d) (d_day d)"

definition valid_datetime :: "datetime \<Rightarrow> bool" where
  "valid_datetime t =
     (valid_ymd (year t) (month t) (day t) \<and> hour t < 24 \<and> minute t < 60 \<and> second t < 60
      \<and> microsecond t < 1000000)"

text \<open>\<^verbatim>\<open>date.isoformat()\<close>: \<^verbatim>\<open>YYYY-MM-DD\<close>.\<close>

definition iso_ymd :: "nat \<Rightarrow> nat \<Rightarrow> nat \<Rightarrow> pystr" where
  "iso_ymd y m d = zero_padded 4 y @ py ''-'' @ zero_padded 2 m @ py ''-'' @ zero_padded 2 d"

definition date_isoformat :: "date \<Rightarrow> pystr" where
  "date_isoformat d = iso_ymd (d_year d) (d_month d) (d_day d)"

text \<open>
  \<^verbatim>\<open>datetime.isoformat()\<close> of a naive date-time: \<^verbatim>\<open>YYYY-MM-DDTHH:MM:SS\<close>, followed by
  \<^verbatim>\<open>.ffffff\<close> when the microsecond field is not zero.
\<close>

definition isoformat :: "datetime \<Rightarrow> pystr" where
  "isoformat t =
     iso_ymd (year t) (month t) (day t) @ py ''T''
     @ zero_padded 2 (hour t) @ py '':'' @ zero_padded 2 (minute t) @ py '':''
     @ zero_padded 2 (second t)
     @ (if microsecond t \<noteq> 0 then py ''.'' @ zero_padded 6 (microsecond t) else [])"

text \<open>
  Naive date-times compare as the tuples of their fields
  (year, month, day, hour, minute, second, microsecond), lexicographically.
\<close>

definition dt_tuple :: "datetime \<Rightarrow> nat list" where
  "dt_tuple t = [year t, month t, day t, hour t, minute t, second t, microsecond t]"

definition dt_ge :: "datetime \<Rightarrow> datetime \<Rightarrow> bool" where
  "dt_ge a b = (dt_tuple b \<le> dt_tuple a)"

subsection \<open>Patient (models/patient.py)\<close>

text \<open>
  A patient object, by its attributes. \<open>p_consultations\<close> is the list \<^verbatim>\<open>_consultations\<close>: it
  holds references to consultation dictionaries of the consultation service. Those
  dictionaries are never removed from the service's list nor reordered, so a reference is
  the position of the dictionary in that list.
\<close>

record patient =
  numero_secu :: pystr
  nom :: pystr
  prenom :: pystr
  date_naissance :: date
  adresse :: pystr
  telephone :: pystr
  p_consultations :: "nat list"

definition Patient :: "pystr \<Rightarrow> pystr \<Rightarrow> pystr \<Rightarrow> date \<Rightarrow> pystr \<Rightarrow> pystr \<Rightarrow> patient" where
  "Patient num_secu nom' prenom' date_naissance' adresse' telephone' =
     \<lparr>numero_secu = num_secu, nom = nom', prenom = prenom', date_naissance = date_naissance',
      adresse = adresse', telephone = telephone', p_consultations = []\<rparr>"

definition ajouter_consultation :: "nat \<Rightarrow> patient \<Rightarrow> patient" where
  "ajouter_consultation consultation p = p\<lparr>p_consultations := p_consultations p @ [consultation]\<rparr>"

subsection \<open>Prescription (models/prescription.py)\<close>

text \<open>
  A prescription object: the attributes of the base class \<^verbatim>\<open>Prescription\<close> and those of its
  subclass. The three constructors set the shared attributes as the classes'
  \<^verbatim>\<open>__init__\<close> methods do. The letter e with acute accent is code point 233.
\<close>

datatype prescription_variant =
    Medicamenteuse (frequence: pystr)
  | Examen (laboratoire: "pystr option")
  | Kinesitherapie (nb_seances: int) (zone: pystr)

record prescription =
  description :: pystr
  posologie :: pystr
  duree :: pystr
  variant :: prescription_variant

definition PrescriptionMedicamenteuse :: "pystr \<Rightarrow> pystr \<Rightarrow> pystr \<Rightarrow> pystr \<Rightarrow> prescription" where
  "PrescriptionMedicamenteuse medicament dosage frequence' duree' =
     \<lparr>description = medicament, posologie = dosage, duree = duree',
      variant = Medicamenteuse frequence'\<rparr>"

definition PrescriptionExamen :: "pystr \<Rightarrow> pystr option \<Rightarrow> prescription" where
  "PrescriptionExamen type_examen laboratoire' =
     \<lparr>description = type_examen, posologie = py ''n/a'', duree = py ''n/a'',
      variant = Examen laboratoire'\<rparr>"

definition PrescriptionKinesitherapie :: "int \<Rightarrow> pystr \<Rightarrow> prescription" where
  "PrescriptionKinesitherapie nb_seances' zone' =
     \<lparr>description = py ''kin'' @ [233] @ py ''sith'' @ [233] @ py ''rapie'',
      posologie = str_int nb_seances' @ py '' s'' @ [233] @ py ''ances'',
      duree = py ''par s'' @ [233] @ py ''ances'',
      variant = Kinesitherapie nb_seances' zone'\<rparr>"

text \<open>\<^verbatim>\<open>presc.__class__.__name__\<close>\<close>

fun class_name :: "prescription_variant \<Rightarrow> pystr" where
  "class_name (Medicamenteuse _) = py ''PrescriptionMedicamenteuse''"
| "class_name (Examen _) = py ''PrescriptionExamen''"
| "class_name (Kinesitherapie _ _) = py ''PrescriptionKinesitherapie''"

subsection \<open>Consultation (models/consultation.py and the dictionaries of the service)\<close>

text \<open>The three status literals of class \<^verbatim>\<open>Consultation\<close>.\<close>

definition STATUS_PLANIFIEE :: pystr where
  "STATUS_PLANIFIEE = py ''planifi'' @ [233] @ py ''e''"

definition STATUS_REALISEE :: pystr where
  "STATUS_REALISEE = py ''r'' @ [233] @ py ''alis'' @ [233] @ py ''e''"

definition STATUS_ANNULEE :: pystr where
  "STATUS_ANNULEE = py ''annul'' @ [233] @ py ''e''"

text \<open>A serialized prescription: the dictionary built by \<^verbatim>\<open>_serialize_prescription\<close>.\<close>

record prescription_row =
  r_type :: pystr
  r_description :: pystr
  r_posologie :: pystr
  r_duree :: pystr

text \<open>
  The consultation service keeps each consultation as a dictionary with the eight keys
  below, which is also what it persists; \<open>diagnostic\<close> is \<^verbatim>\<open>None\<close> or a string.
\<close>

record consultation =
  c_id :: pystr
  patient_num :: pystr
  date_heure :: pystr
  medecin :: pystr
  motif :: pystr
  diagnostic :: "pystr option"
  prescriptions :: "prescription_row list"
  statut :: pystr

section \<open>The services\<close>

datatype error =
    PatientNotFoundError
  | InvalidSecurityNumberError
  | ConsultationNotFoundError
  | InvalidConsultationStatusError
  | ValueError
  | TypeError

text \<open>
  The content of \<^verbatim>\<open>cabinet_data.json\<close>: the serialized patients and the consultations.
\<close>

record patient_row =
  row_numero_secu :: pystr
  row_nom :: pystr
  row_prenom :: pystr
  row_date_naissance :: pystr
  row_adresse :: pystr
  row_telephone :: pystr

record file_content =
  f_patients :: "patient_row list"
  f_consultations :: "consultation list"

text \<open>
  The state of a \<^verbatim>\<open>PatientService\<close> and the \<^verbatim>\<open>ConsultationService\<close> built on it:
  \<^item> \<open>patients\<close>: the dictionary \<^verbatim>\<open>PatientService.patients\<close>, in insertion order;
  \<^item> \<open>consultations\<close>: the list \<^verbatim>\<open>ConsultationService.consultations\<close>;
  \<^item> \<open>data_file\<close>: the data file, \<open>None\<close> when it is missing or cannot be read as JSON.

  Every operation returns its outcome (\<open>Inl\<close> the exception raised, \<open>Inr\<close> the value
  returned) together with the state it leaves. The action log, which \<^verbatim>\<open>log_action\<close> appends
  to after the wrapped method has returned, is not part of the state.
\<close>

record state =
  patients :: "(pystr \<times> patient) list"
  consultations :: "consultation list"
  data_file :: "file_content option"

subsection \<open>Insertion-ordered dictionaries\<close>

text \<open>\<^verbatim>\<open>d.get(k)\<close>, \<^verbatim>\<open>k in d\<close> and \<^verbatim>\<open>d[k] = v\<close>; assigning to a key already present
  keeps its position.\<close>

fun dict_get :: "('k \<times> 'v) list \<Rightarrow> 'k \<Rightarrow> 'v option" where
  "dict_get [] k = None"
| "dict_get ((k', v) # kvs) k = (if k' = k then Some v else dict_get kvs k)"

definition dict_contains :: "('k \<times> 'v) list \<Rightarrow> 'k \<Rightarrow> bool" where
  "dict_contains d k = (dict_get d k \<noteq> None)"

fun dict_set :: "('k \<times> 'v) list \<Rightarrow> 'k \<Rightarrow> 'v \<Rightarrow> ('k \<times> 'v) list" where
  "dict_set [] k v = [(k, v)]"
| "dict_set ((k', v') # kvs) k v =
     (if k' = k then (k, v) # kvs else (k', v') # dict_set kvs k v)"

subsection \<open>PatientService (services/patient\_service.py)\<close>

definition serialize_patient :: "patient \<Rightarrow> patient_row" where
  "serialize_patient p =
     \<lparr>row_numero_secu = numero_secu p, row_nom = nom p, row_prenom = prenom p,
      row_date_naissance = date_isoformat (date_naissance p),
      row_adresse = adresse p, row_telephone = telephone p\<rparr>"

text \<open>
  \<^verbatim>\<open>PatientService._save\<close> builds the object \<open>save_content\<close>: all patients, with the
  consultations given or, when none are given, those the file holds (none when the file
  cannot be read); and it writes this object to the data file.

  \<^verbatim>\<open>json.dump\<close> is called with \<^verbatim>\<open>ensure_ascii=False\<close>, so the texts go as they are to the UTF-8
  writer of the file, and this writer raises \<^verbatim>\<open>UnicodeEncodeError\<close> on a surrogate code point
  (U+D800 to U+DFFF), which a Python string can hold. \<open>json_writable obj\<close> says that no text
  of \<open>obj\<close> holds one. \<open>ps_save\<close> is the write that goes through; the statements below
  that depend on the writer accepting the object say so with \<open>json_writable\<close>.
\<close>

definition save_content :: "consultation list option \<Rightarrow> state \<Rightarrow> file_content" where
  "save_content consultations_serialized st =
     (let patients_list = map (\<lambda>(k, p). serialize_patient p) (patients st);
          cons = (case consultations_serialized of
                    Some cs \<Rightarrow> cs
                  | None \<Rightarrow> (case data_file st of None \<Rightarrow> [] | Some existing \<Rightarrow> f_consultations existing))
      in \<lparr>f_patients = patients_list, f_consultations = cons\<rparr>)"

definition encodable :: "pystr \<Rightarrow> bool" where
  "encodable s = list_all (\<lambda>c. \<not> (55296 \<le> c \<and> c \<le> 57343)) s"

definition row_writable :: "patient_row \<Rightarrow> bool" where
  "row_writable r =
     (encodable (row_numero_secu r) \<and> encodable (row_nom r) \<and> encodable (row_prenom r) \<and>
      encodable (row_date_naissance r) \<and> encodable (row_adresse r) \<and>
      encodable (row_telephone r))"

definition prescription_writable :: "prescription_row \<Rightarrow> bool" where
  "prescription_writable r =
     (encodable (r_type r) \<and> encodable (r_description r) \<and> encodable (r_posologie r) \<and>
      encodable (r_duree r))"

definition consultation_writable :: "consultation \<Rightarrow> bool" where
  "consultation_writable c =
     (encodable (c_id c) \<and> encodable (patient_num c) \<and> encodable (date_heure c) \<and>
      encodable (medecin c) \<and> encodable (motif c) \<and>
      (case diagnostic c of None \<Rightarrow> True | Some d \<Rightarrow> encodable d) \<and>
      list_all prescription_writable (prescriptions c) \<and> encodable (statut c))"

definition json_writable :: "file_content \<Rightarrow> bool" where
  "json_writable obj =
     (list_all row_writable (f_patients obj) \<and>
      list_all consultation_writable (f_consultations obj))"

definition ps_save :: "consultation list option \<Rightarrow> state \<Rightarrow> state" where
  "ps_save consultations_serialized st =
     st\<lparr>data_file := Some (save_content consultations_serialized st)\<rparr>"

text \<open>
  \<^verbatim>\<open>PatientService.ajouter_patient\<close>. The attribute \<^verbatim>\<open>numero_secu\<close> is a \<^verbatim>\<open>str\<close> by the
  signature of \<^verbatim>\<open>Patient\<close>, so the test \<^verbatim>\<open>isinstance(num, str)\<close> holds.
\<close>

definition ajouter_patient :: "patient \<Rightarrow> state \<Rightarrow> (error + unit) \<times> state" where
  "ajouter_patient patient st =
     (let num = numero_secu patient in
      if \<not> (isdigit num \<and> length num = 15) then (Inl InvalidSecurityNumberError, st)
      else
        let st' = (if dict_contains (patients st) num
                   then st\<lparr>patients := dict_set (patients st) num patient\<rparr>
                   else st\<lparr>patients := dict_set (patients st) num patient\<rparr>)
        in (Inr (), ps_save None st'))"

text \<open>\<^verbatim>\<open>PatientService.rechercher_patient\<close>; a patient object is always truthy.\<close>

definition rechercher_patient :: "pystr \<Rightarrow> state \<Rightarrow> (error + patient) \<times> state" where
  "rechercher_patient numero_secu' st =
     (case dict_get (patients st) numero_secu' of
        None \<Rightarrow> (Inl PatientNotFoundError, st)
      | Some patient \<Rightarrow> (Inr patient, st))"

text \<open>
  \<^verbatim>\<open>validate_security_number\<close> (utils/validators.py): \<^verbatim>\<open>re.fullmatch(r"\d{15}", s)\<close>.
\<close>

definition validate_security_number :: "pystr \<Rightarrow> error + unit" where
  "validate_security_number security_number =
     (if \<not> (length security_number = 15 \<and> list_all isdecimal_char security_number)
      then Inl InvalidSecurityNumberError else Inr ())"

subsection \<open>Reading a date-time back: \<^verbatim>\<open>datetime.fromisoformat\<close>\<close>

text \<open>
  \<^verbatim>\<open>datetime.fromisoformat\<close> belongs to the library, and the texts it reads depend on the
  version of the library. The consultation service is therefore modelled for any such
  function, given as an argument: for a text it returns a naive date-time, or a date-time
  that carries a UTC offset (\<open>Aware\<close>), or it raises \<^verbatim>\<open>ValueError\<close> (\<open>Invalid\<close>).
\<close>

datatype parsed = Naive datetime | Aware | Invalid

text \<open>
  For sample data a function of this kind is needed. \<open>read_extended\<close> reads the texts of
  the form \<^verbatim>\<open>YYYY-MM-DD[*HH[:MM[:SS[.fff[fff]]]]]\<close>, where \<^verbatim>\<open>*\<close> is any single character, with
  ASCII digits and the fields in the ranges of \<open>valid_datetime\<close>: every version of the library
  reads these texts, and reads them so, and whatever \<^verbatim>\<open>isoformat\<close> writes for a naive date-time
  is among them. On any other text \<open>read_extended\<close> is \<open>Invalid\<close>, which is what the library
  does with some of them only; the sample data hold no other text than \<^verbatim>\<open>demain\<close>, which no
  version reads.
\<close>

fun parse1 :: "pystr \<Rightarrow> (nat \<times> pystr) option" where
  "parse1 (a # rest) = (if ascii_digit a then Some (a - 48, rest) else None)"
| "parse1 [] = None"

fun parse2 :: "pystr \<Rightarrow> (nat \<times> pystr) option" where
  "parse2 (a # b # rest) =
     (if ascii_digit a \<and> ascii_digit b then Some ((a - 48) * 10 + (b - 48), rest) else None)"
| "parse2 _ = None"

definition parse4 :: "pystr \<Rightarrow> (nat \<times> pystr) option" where
  "parse4 s =
     (case parse2 s of
        None \<Rightarrow> None
      | Some (hi, r) \<Rightarrow> (case parse2 r of None \<Rightarrow> None | Some (lo, r') \<Rightarrow> Some (hi * 100 + lo, r')))"

definition parse_isoformat_date :: "pystr \<Rightarrow> (nat \<times> nat \<times> nat) option" where
  "parse_isoformat_date dstr =
     (case parse4 dstr of
        None \<Rightarrow> None
      | Some (y, r1) \<Rightarrow>
         (case r1 of
            [] \<Rightarrow> None
          | c1 # r1' \<Rightarrow>
             if c1 \<noteq> 45 then None
             else (case parse2 r1' of
                     None \<Rightarrow> None
                   | Some (m, r2) \<Rightarrow>
                      (case r2 of
                         [] \<Rightarrow> None
                       | c2 # r2' \<Rightarrow>
                          if c2 \<noteq> 45 then None
                          else (case parse2 r2' of
                                  None \<Rightarrow> None
                                | Some (d, r3) \<Rightarrow> if r3 = [] then Some (y, m, d) else None)))))"

text \<open>The fraction of a second has three digits (milliseconds) or six (microseconds).\<close>

definition parse_fraction :: "pystr \<Rightarrow> nat option" where
  "parse_fraction s =
     (if length s = 3 then
        (case parse1 s of None \<Rightarrow> None | Some (v, r) \<Rightarrow>
           (case parse2 r of None \<Rightarrow> None | Some (w, _) \<Rightarrow> Some ((v * 100 + w) * 1000)))
      else if length s = 6 then
        (case parse4 s of None \<Rightarrow> None | Some (v, r) \<Rightarrow>
           (case parse2 r of None \<Rightarrow> None | Some (w, _) \<Rightarrow> Some (v * 100 + w)))
      else None)"

definition parse_hh_mm_ss_ff :: "pystr \<Rightarrow> (nat \<times> nat \<times> nat \<times> nat) option" where
  "parse_hh_mm_ss_ff tstr =
     (case parse2 tstr of
        None \<Rightarrow> None
      | Some (h, r1) \<Rightarrow>
         (case r1 of
            [] \<Rightarrow> Some (h, 0, 0, 0)
          | c1 # r1' \<Rightarrow>
             if c1 \<noteq> 58 then None
             else (case parse2 r1' of
                     None \<Rightarrow> None
                   | Some (mi, r2) \<Rightarrow>
                      (case r2 of
                         [] \<Rightarrow> Some (h, mi, 0, 0)
                       | c2 # r2' \<Rightarrow>
                          if c2 \<noteq> 58 then None
                          else (case parse2 r2' of
                                  None \<Rightarrow> None
                                | Some (sec, r3) \<Rightarrow>
                                   (case r3 of
                                      [] \<Rightarrow> Some (h, mi, sec, 0)
                                    | c3 # r3' \<Rightarrow>
                                       if c3 \<noteq> 46 then None
                                       else (case parse_fraction r3' of
                                               None \<Rightarrow> None
                                             | Some us \<Rightarrow> Some (h, mi, sec, us))))))))"

definition make_datetime :: "nat \<Rightarrow> nat \<Rightarrow> nat \<Rightarrow> nat \<Rightarrow> nat \<Rightarrow> nat \<Rightarrow> nat \<Rightarrow> parsed" where
  "make_datetime y m d h mi sec us =
     (let t = \<lparr>year = y, month = m, day = d, hour = h, minute = mi, second = sec,
               microsecond = us\<rparr>
      in if valid_datetime t then Naive t else Invalid)"

definition read_extended :: "pystr \<Rightarrow> parsed" where
  "read_extended date_string =
     (case parse_isoformat_date (take 10 date_string) of
        None \<Rightarrow> Invalid
      | Some (y, m, d) \<Rightarrow>
         if length date_string = 10 then make_datetime y m d 0 0 0 0
         else (case parse_hh_mm_ss_ff (drop 11 date_string) of
                 None \<Rightarrow> Invalid
               | Some (h, mi, sec, us) \<Rightarrow> make_datetime y m d h mi sec us))"

subsection \<open>ConsultationService (services/consultation\_service.py)\<close>

text \<open>\<^verbatim>\<open>ConsultationService._save\<close> hands the consultations to the patient service's writer.\<close>

definition cs_save :: "state \<Rightarrow> state" where
  "cs_save st = ps_save (Some (consultations st)) st"

text \<open>\<^verbatim>\<open>_serialize_prescription\<close>: the class name and the three shared attributes.\<close>

definition serialize_prescription :: "prescription \<Rightarrow> prescription_row" where
  "serialize_prescription presc =
     \<lparr>r_type = class_name (variant presc), r_description = description presc,
      r_posologie = posologie presc, r_duree = duree presc\<rparr>"

text \<open>
  \<^verbatim>\<open>planifier_consultation\<close>. The first argument is the string that \<^verbatim>\<open>str(uuid.uuid4())\<close>
  returns in this call; the date-time given is a naive one. The class \<^verbatim>\<open>Consultation\<close> has
  the attribute \<^verbatim>\<open>STATUS_PLANIFIEE\<close>, so the status is that literal. The dictionary is
  appended to the service's list, and a reference to it to the list of the patient object
  found, which is the object stored under the key.
\<close>

definition planifier_consultation ::
  "pystr \<Rightarrow> pystr \<Rightarrow> datetime \<Rightarrow> pystr \<Rightarrow> pystr \<Rightarrow> state \<Rightarrow> (error + consultation) \<times> state" where
  "planifier_consultation uuid4 patient_num' date_heure' medecin' motif' st =
     (case rechercher_patient patient_num' st of
        (Inl e, st0) \<Rightarrow> (Inl e, st0)
      | (Inr patient, st0) \<Rightarrow>
         let cid = uuid4;
             c = \<lparr>c_id = cid, patient_num = patient_num', date_heure = isoformat date_heure',
                  medecin = medecin', motif = motif', diagnostic = None, prescriptions = [],
                  statut = STATUS_PLANIFIEE\<rparr>;
             ref = length (consultations st0);
             st1 = st0\<lparr>consultations := consultations st0 @ [c]\<rparr>;
             st2 = st1\<lparr>patients :=
                         dict_set (patients st1) patient_num' (ajouter_consultation ref patient)\<rparr>
         in (Inr c, cs_save st2))"

text \<open>
  \<^verbatim>\<open>lister_consultations_a_venir\<close>, with the library function \<^verbatim>\<open>datetime.fromisoformat\<close> and
  the value of \<^verbatim>\<open>datetime.now()\<close>, a naive date-time, as arguments. The comprehension tests
  the status first and reads the date-time only of the consultations that pass. A text
  that is not read raises \<^verbatim>\<open>ValueError\<close>; a date-time with a UTC offset makes the comparison
  with \<^verbatim>\<open>now\<close> raise \<^verbatim>\<open>TypeError\<close>; the first of these ends the call. \<^verbatim>\<open>sorted\<close> is a stable sort
  on the text of the date-time, as \<open>sort_key\<close> is.
\<close>

definition planifiee_spellings :: "pystr list" where
  "planifiee_spellings = [py ''planifi'' @ [233] @ py ''e'', py ''planifiee'']"

fun upcoming :: "(pystr \<Rightarrow> parsed) \<Rightarrow> datetime \<Rightarrow> consultation list \<Rightarrow> error + consultation list" where
  "upcoming fromisoformat now [] = Inr []"
| "upcoming fromisoformat now (c # cs) =
     (if statut c \<in> set planifiee_spellings then
        (case fromisoformat (date_heure c) of
           Invalid \<Rightarrow> Inl ValueError
         | Aware \<Rightarrow> Inl TypeError
         | Naive t \<Rightarrow>
            (case upcoming fromisoformat now cs of
               Inl e \<Rightarrow> Inl e
             | Inr rest \<Rightarrow> Inr (if dt_ge t now then c # rest else rest)))
      else upcoming fromisoformat now cs)"

definition lister_consultations_a_venir ::
  "(pystr \<Rightarrow> parsed) \<Rightarrow> datetime \<Rightarrow> state \<Rightarrow> (error + consultation list) \<times> state" where
  "lister_consultations_a_venir fromisoformat now st =
     (case upcoming fromisoformat now (consultations st) of
        Inl e \<Rightarrow> (Inl e, st)
      | Inr up \<Rightarrow> (Inr (sort_key date_heure up), st))"

text \<open>
  \<^verbatim>\<open>_find_by_id\<close> returns the first dictionary of the list with the given id, here as its
  position in the list.
\<close>

fun find_loop :: "consultation list \<Rightarrow> pystr \<Rightarrow> nat option" where
  "find_loop [] consultation_id = None"
| "find_loop (c # cs) consultation_id =
     (if c_id c = consultation_id then Some 0 else map_option Suc (find_loop cs consultation_id))"

definition find_by_id :: "pystr \<Rightarrow> state \<Rightarrow> (error + nat) \<times> state" where
  "find_by_id consultation_id st =
     (case find_loop (consultations st) consultation_id of
        None \<Rightarrow> (Inl ConsultationNotFoundError, st)
      | Some c \<Rightarrow> (Inr c, st))"

text \<open>Assignment to a key of the dictionary behind a reference.\<close>

definition update_consultation :: "nat \<Rightarrow> (consultation \<Rightarrow> consultation) \<Rightarrow> state \<Rightarrow> state" where
  "update_consultation c f st =
     st\<lparr>consultations := (consultations st)[c := f (consultations st ! c)]\<rparr>"




definition ajouter_prescription :: "pystr \<Rightarrow> prescription \<Rightarrow> state \<Rightarrow> (error + unit) \<times> state" where
  "ajouter_prescription consultation_id prescription' st =
     (case find_by_id consultation_id st of
        (Inl e, st0) \<Rightarrow> (Inl e, st0)
      | (Inr c, st0) \<Rightarrow>
         let c_presc = serialize_prescription prescription'
         in (Inr (), cs_save (update_consultation c
                                (\<lambda>d. d\<lparr>prescriptions := prescriptions d @ [c_presc]\<rparr>) st0)))"

section \<open>Properties of the services\<close>

subsection \<open>Vocabulary of the statements\<close>

text \<open>
  \<open>is_first_with_id cs cid i\<close>: position \<open>i\<close> holds the first consultation of \<open>cs\<close> whose id
  is \<open>cid\<close>, which is the consultation that the operations on an id act on.
\<close>

definition is_first_with_id :: "consultation list \<Rightarrow> pystr \<Rightarrow> nat \<Rightarrow> bool" where
  "is_first_with_id cs cid i =
     (i < length cs \<and> c_id (cs ! i) = cid \<and> cid \<notin> c_id ` set (take i cs))"

text \<open>
  For the list of upcoming consultations, with \<open>f\<close> the library function that reads a
  date-time: \<open>is_upcoming f now c\<close> is the test of the comprehension on a consultation whose
  date-time is read as a naive one; \<open>dates_readable f cs\<close> says that the date-time of every
  consultation that passes the status test is read as a naive one; \<open>date_heure_le f a b\<close>
  compares two consultations by the date-times their texts are read as;
  \<open>written_by_isoformat f s\<close> says that \<open>s\<close> is the text \<^verbatim>\<open>isoformat\<close> writes for the date-time
  it is read as, which is how \<^verbatim>\<open>planifier_consultation\<close> stores a date-time.
\<close>

definition is_upcoming :: "(pystr \<Rightarrow> parsed) \<Rightarrow> datetime \<Rightarrow> consultation \<Rightarrow> bool" where
  "is_upcoming f now c =
     (statut c \<in> set planifiee_spellings \<and>
      (case f (date_heure c) of Naive t \<Rightarrow> dt_ge t now | Aware \<Rightarrow> False | Invalid \<Rightarrow> False))"

definition is_naive :: "parsed \<Rightarrow> bool" where
  "is_naive r = (case r of Naive t \<Rightarrow> True | Aware \<Rightarrow> False | Invalid \<Rightarrow> False)"

definition dates_readable :: "(pystr \<Rightarrow> parsed) \<Rightarrow> consultation list \<Rightarrow> bool" where
  "dates_readable f cs =
     (\<forall>c \<in> set cs. statut c \<in> set planifiee_spellings \<longrightarrow> is_naive (f (date_heure c)))"

definition date_heure_le :: "(pystr \<Rightarrow> parsed) \<Rightarrow> consultation \<Rightarrow> consultation \<Rightarrow> bool" where
  "date_heure_le f a b =
     (case f (date_heure a) of
        Naive ta \<Rightarrow>
          (case f (date_heure b) of Naive tb \<Rightarrow> dt_ge tb ta | Aware \<Rightarrow> False | Invalid \<Rightarrow> False)
      | Aware \<Rightarrow> False
      | Invalid \<Rightarrow> False)"

definition written_by_isoformat :: "(pystr \<Rightarrow> parsed) \<Rightarrow> pystr \<Rightarrow> bool" where
  "written_by_isoformat f s =
     (case f s of
        Naive t \<Rightarrow> valid_datetime t \<and> isoformat t = s
      | Aware \<Rightarrow> False
      | Invalid \<Rightarrow> False)"

text \<open>
  \<open>cs_content st\<close> is the object that \<^verbatim>\<open>ConsultationService._save\<close> writes in the state
  \<open>st\<close>.
\<close>

definition cs_content :: "state \<Rightarrow> file_content" where
  "cs_content st = save_content (Some (consultations st)) st"

subsection \<open>Sample data\<close>

text \<open>
  A patient with a well-formed security number, three consultations (one planned, one
  cancelled, one carried out), a security number made of fifteen superscript twos
  (code point 178), a physiotherapy prescription and a date-time.
\<close>

definition ex_date :: date where
  "ex_date = \<lparr>d_year = 1980, d_month = 5, d_day = 17\<rparr>"

definition ex_patient :: patient where
  "ex_patient =
     Patient (py ''123456789012345'') (py ''Durand'') (py ''Alice'') ex_date
       (py ''1 rue Haute'') (py ''0102030405'')"

definition ex_consultation :: "pystr \<Rightarrow> pystr \<Rightarrow> pystr \<Rightarrow> consultation" where
  "ex_consultation i d s =
     \<lparr>c_id = i, patient_num = py ''123456789012345'', date_heure = d,
      medecin = py ''Dr Martin'', motif = py ''controle'', diagnostic = None,
      prescriptions = [], statut = s\<rparr>"

definition ex_state :: state where
  "ex_state =
     \<lparr>patients = [(py ''123456789012345'', ex_patient)],
      consultations =
        [ex_consultation (py ''a'') (py ''2031-01-01T09:00:00'') STATUS_PLANIFIEE,
         ex_consultation (py ''b'') (py ''2031-02-01T09:00:00'') STATUS_ANNULEE,
         ex_consultation (py ''c'') (py ''2031-03-01T09:00:00'') STATUS_REALISEE],
      data_file = None\<rparr>"

definition ex_superscript :: pystr where
  "ex_superscript = [178, 178, 178, 178, 178, 178, 178, 178, 178, 178, 178, 178, 178, 178, 178]"

definition ex_kine :: prescription where
  "ex_kine = PrescriptionKinesitherapie 12 (py ''genou'')"

definition ex_datetime :: datetime where
  "ex_datetime = \<lparr>year = 2030, month = 1, day = 1, hour = 10, minute = 0, second = 0,
                   microsecond = 0\<rparr>"

text \<open>
  Two consultations that \<^verbatim>\<open>_load\<close> can read from a data file: one planned for 09:00, and
  one for 10:00 of the same day whose status is spelt without the accent and whose
  date-time has a space where \<^verbatim>\<open>isoformat\<close> writes \<^verbatim>\<open>T\<close>. And a state with a consultation
  whose date-time cannot be read.
\<close>

definition ex_early :: consultation where
  "ex_early = ex_consultation (py ''e'') (py ''2031-01-01T09:00:00'') STATUS_PLANIFIEE"

definition ex_late :: consultation where
  "ex_late = ex_consultation (py ''l'') (py ''2031-01-01 10:00:00'') (py ''planifiee'')"

definition ex_mixed_state :: state where
  "ex_mixed_state =
     \<lparr>patients = [(py ''123456789012345'', ex_patient)],
      consultations = [ex_early, ex_late], data_file = None\<rparr>"

definition ex_unreadable_state :: state where
  "ex_unreadable_state =
     \<lparr>patients = [(py ''123456789012345'', ex_patient)],
      consultations = [ex_consultation (py ''u'') (py ''demain'') STATUS_PLANIFIEE],
      data_file = None\<rparr>"

text \<open>
  A collection in no particular order: three planned consultations still to come (one of
  them with the status spelt without accent), a cancelled one and a planned one of the
  past, all with date-times as \<^verbatim>\<open>isoformat\<close> writes them.
\<close>

definition ex_agenda_state :: state where
  "ex_agenda_state =
     \<lparr>patients = [(py ''123456789012345'', ex_patient)],
      consultations =
        [ex_consultation (py ''m'') (py ''2031-03-01T09:00:00'') STATUS_PLANIFIEE,
         ex_consultation (py ''j'') (py ''2031-01-01T09:00:00'') STATUS_PLANIFIEE,
         ex_consultation (py ''x'') (py ''2031-02-01T09:00:00'') STATUS_ANNULEE,
         ex_consultation (py ''o'') (py ''2029-01-01T09:00:00'') STATUS_PLANIFIEE,
         ex_consultation (py ''f'') (py ''2031-02-01T08:30:00'') (py ''planifiee'')],
      data_file = None\<rparr>"



definition ex_medicament :: prescription where
  "ex_medicament =
     PrescriptionMedicamenteuse (py ''amoxicilline'') (py ''500 mg'') (py ''3 par jour'')
       (py ''7 jours'')"

definition ex_examen :: prescription where
  "ex_examen = PrescriptionExamen (py ''radio du genou'') None"

text \<open>
  A consultation whose date-time carries a UTC offset, and a reading function that reads
  this text as the library does, as a date-time with offset.
\<close>

definition read_with_offset :: "pystr \<Rightarrow> parsed" where
  "read_with_offset s =
     (if s = py ''2031-01-01T09:00:00+02:00'' then Aware else read_extended s)"

definition ex_offset_state :: state where
  "ex_offset_state =
     \<lparr>patients = [(py ''123456789012345'', ex_patient)],
      consultations =
        [ex_consultation (py ''w'') (py ''2031-01-01T09:00:00+02:00'') STATUS_PLANIFIEE],
      data_file = None\<rparr>"

subsection \<open>Dictionaries, digits and status literals\<close>

lemma dict_get_dict_set:
  "dict_get (dict_set d k v) k' = (if k' = k then Some v else dict_get d k')"
  by (induction d) auto

lemma dict_get_None_iff: "dict_get d k = None \<longleftrightarrow> k \<notin> fst ` set d"
  by (induction d) (auto split: if_splits)

lemma ascii_digit_isdigit_char: "ascii_digit c \<Longrightarrow> isdigit_char c"
  by (simp add: ascii_digit_def isdigit_char_def isdecimal_char_def in_ranges_def
      decimal_ranges_def)

lemma ascii_digits_isdigit: "list_all ascii_digit s \<Longrightarrow> s \<noteq> [] \<Longrightarrow> isdigit s"
  by (simp add: isdigit_def list_all_iff ascii_digit_isdigit_char)


subsection \<open>Texts of date-times: order and reading back\<close>

text \<open>
  Zero-padded numbers of one width are ordered as texts the way they are as numbers, so
  the texts that \<^verbatim>\<open>isoformat\<close> writes are ordered the way the date-times are; and
  \<^verbatim>\<open>fromisoformat\<close> reads back what \<^verbatim>\<open>isoformat\<close> has written.
\<close>

lemma length_zero_padded [simp]: "length (zero_padded w n) = w"
  by (induction w arbitrary: n) auto

lemma lex_append_less:
  fixes u v :: "nat list"
  shows "length u = length v \<Longrightarrow> (u @ x < v @ y) = (u < v \<or> u = v \<and> x < y)"
  by (induction u v rule: list_induct2) auto

lemma lex_append_le:
  fixes u v :: "nat list"
  shows "length u = length v \<Longrightarrow> (u @ x \<le> v @ y) = (u < v \<or> u = v \<and> x \<le> y)"
  by (induction u v rule: list_induct2) auto

lemma digits_less_iff:
  fixes qa ra qb rb :: nat
  shows "ra < 10 \<Longrightarrow> rb < 10 \<Longrightarrow>
    (10 * qa + ra < 10 * qb + rb) = (qa < qb \<or> qa = qb \<and> ra < rb)"
  by linarith

lemma div_mod_less_iff:
  fixes a b :: nat
  shows "(a < b) = (a div 10 < b div 10 \<or> a div 10 = b div 10 \<and> a mod 10 < b mod 10)"
proof -
  have "(10 * (a div 10) + a mod 10 < 10 * (b div 10) + b mod 10)
      = (a div 10 < b div 10 \<or> a div 10 = b div 10 \<and> a mod 10 < b mod 10)"
    by (rule digits_less_iff) simp_all
  then show ?thesis by simp
qed

lemma div_mod_eq_iff:
  fixes a b :: nat
  shows "(a = b) = (a div 10 = b div 10 \<and> a mod 10 = b mod 10)"
  by (metis div_mult_mod_eq)

lemma div10_less: "a < 10 ^ Suc w \<Longrightarrow> a div 10 < (10::nat) ^ w"
  by (simp add: less_mult_imp_div_less mult.commute)

lemma zero_padded_inj:
  "a < 10 ^ w \<Longrightarrow> b < 10 ^ w \<Longrightarrow> (zero_padded w a = zero_padded w b) = (a = b)"
proof (induction w arbitrary: a b)
  case 0
  then show ?case by simp
next
  case (Suc w)
  from Suc.prems have "a div 10 < 10 ^ w" "b div 10 < 10 ^ w"
    by (simp_all only: div10_less)
  then have "(zero_padded w (a div 10) = zero_padded w (b div 10)) = (a div 10 = b div 10)"
    by (rule Suc.IH)
  then show ?case using div_mod_eq_iff [of a b] by simp
qed

lemma zero_padded_less:
  "a < 10 ^ w \<Longrightarrow> b < 10 ^ w \<Longrightarrow> (zero_padded w a < zero_padded w b) = (a < b)"
proof (induction w arbitrary: a b)
  case 0
  then show ?case by simp
next
  case (Suc w)
  from Suc.prems have d: "a div 10 < 10 ^ w" "b div 10 < 10 ^ w"
    by (simp_all only: div10_less)
  have l: "(zero_padded w (a div 10) < zero_padded w (b div 10)) = (a div 10 < b div 10)"
    using d by (rule Suc.IH)
  have e: "(zero_padded w (a div 10) = zero_padded w (b div 10)) = (a div 10 = b div 10)"
    using d by (rule zero_padded_inj)
  show ?case using div_mod_less_iff [of a b]
    by (simp add: lex_append_less l e)
qed

lemma padded_block_le:
  "x < 10 ^ w \<Longrightarrow> y < 10 ^ w \<Longrightarrow>
   (zero_padded w x @ r1 \<le> zero_padded w y @ r2) = (x < y \<or> x = y \<and> r1 \<le> r2)"
  by (simp add: lex_append_le zero_padded_less zero_padded_inj)

lemma days_in_month_le: "days_in_month y m \<le> 31"
  by (simp add: days_in_month_def)

lemma valid_datetime_bounds:
  assumes "valid_datetime t"
  shows "year t < 10 ^ 4" "month t < 10 ^ 2" "day t < 10 ^ 2" "hour t < 10 ^ 2"
    "minute t < 10 ^ 2" "second t < 10 ^ 2" "microsecond t < 10 ^ 6"
proof -
  from assms have "day t \<le> days_in_month (year t) (month t)"
    by (simp add: valid_datetime_def valid_ymd_def)
  then have "day t \<le> 31" using days_in_month_le [of "year t" "month t"] by linarith
  then show "day t < 10 ^ 2" by simp
qed (use assms in \<open>simp_all add: valid_datetime_def valid_ymd_def\<close>)

lemma fraction_le:
  assumes "ua < 10 ^ 6" "ub < 10 ^ 6"
  shows "((if ua \<noteq> 0 then 46 # zero_padded 6 ua else []) \<le>
          (if ub \<noteq> 0 then 46 # zero_padded 6 ub else [])) = (ua \<le> ub)"
proof -
  have "(zero_padded 6 ua \<le> zero_padded 6 ub) = (ua \<le> ub)"
    using zero_padded_less [OF assms] zero_padded_inj [OF assms] by auto
  then show ?thesis by auto
qed

lemma padded_block_step:
  "x < 10 ^ w \<Longrightarrow> y < 10 ^ w \<Longrightarrow> (r1 \<le> r2) = (t1 \<le> t2) \<Longrightarrow>
   (zero_padded w x @ c # r1 \<le> zero_padded w y @ c # r2) = (x # t1 \<le> y # t2)"
  by (simp add: padded_block_le)

lemma isoformat_blocks:
  "isoformat t =
     zero_padded 4 (year t) @ 45 # zero_padded 2 (month t) @ 45 # zero_padded 2 (day t) @ 84 #
     zero_padded 2 (hour t) @ 58 # zero_padded 2 (minute t) @ 58 # zero_padded 2 (second t) @
     (if microsecond t \<noteq> 0 then 46 # zero_padded 6 (microsecond t) else [])"
  by (simp add: isoformat_def iso_ymd_def py_def)

lemma isoformat_le_iff:
  assumes a: "valid_datetime a" and b: "valid_datetime b"
  shows "(isoformat a \<le> isoformat b) = (dt_tuple a \<le> dt_tuple b)"
proof -
  note ba = valid_datetime_bounds [OF a] and bb = valid_datetime_bounds [OF b]
  define fa where "fa = (if microsecond a \<noteq> 0 then 46 # zero_padded 6 (microsecond a) else [])"
  define fb where "fb = (if microsecond b \<noteq> 0 then 46 # zero_padded 6 (microsecond b) else [])"
  have us: "(fa \<le> fb) = (microsecond a \<le> microsecond b)"
    unfolding fa_def fb_def using ba(7) bb(7) by (rule fraction_le)
  have e6: "(zero_padded 2 (second a) @ fa \<le> zero_padded 2 (second b) @ fb)
      = ([second a, microsecond a] \<le> [second b, microsecond b])"
    using padded_block_le [OF ba(6) bb(6), of fa fb] us by auto
  have e5: "(zero_padded 2 (minute a) @ 58 # zero_padded 2 (second a) @ fa
        \<le> zero_padded 2 (minute b) @ 58 # zero_padded 2 (second b) @ fb)
      = ([minute a, second a, microsecond a] \<le> [minute b, second b, microsecond b])"
    by (rule padded_block_step [OF ba(5) bb(5) e6])
  have e4: "(zero_padded 2 (hour a) @ 58 # zero_padded 2 (minute a) @ 58 #
          zero_padded 2 (second a) @ fa
        \<le> zero_padded 2 (hour b) @ 58 # zero_padded 2 (minute b) @ 58 #
          zero_padded 2 (second b) @ fb)
      = ([hour a, minute a, second a, microsecond a]
          \<le> [hour b, minute b, second b, microsecond b])"
    by (rule padded_block_step [OF ba(4) bb(4) e5])
  have e3: "(zero_padded 2 (day a) @ 84 # zero_padded 2 (hour a) @ 58 #
          zero_padded 2 (minute a) @ 58 # zero_padded 2 (second a) @ fa
        \<le> zero_padded 2 (day b) @ 84 # zero_padded 2 (hour b) @ 58 #
          zero_padded 2 (minute b) @ 58 # zero_padded 2 (second b) @ fb)
      = ([day a, hour a, minute a, second a, microsecond a]
          \<le> [day b, hour b, minute b, second b, microsecond b])"
    by (rule padded_block_step [OF ba(3) bb(3) e4])
  have e2: "(zero_padded 2 (month a) @ 45 # zero_padded 2 (day a) @ 84 #
          zero_padded 2 (hour a) @ 58 # zero_padded 2 (minute a) @ 58 #
          zero_padded 2 (second a) @ fa
        \<le> zero_padded 2 (month b) @ 45 # zero_padded 2 (day b) @ 84 #
          zero_padded 2 (hour b) @ 58 # zero_padded 2 (minute b) @ 58 #
          zero_padded 2 (second b) @ fb)
      = ([month a, day a, hour a, minute a, second a, microsecond a]
          \<le> [month b, day b, hour b, minute b, second b, microsecond b])"
    by (rule padded_block_step [OF ba(2) bb(2) e3])
  have e1: "(zero_padded 4 (year a) @ 45 # zero_padded 2 (month a) @ 45 #
          zero_padded 2 (day a) @ 84 # zero_padded 2 (hour a) @ 58 #
          zero_padded 2 (minute a) @ 58 # zero_padded 2 (second a) @ fa
        \<le> zero_padded 4 (year b) @ 45 # zero_padded 2 (month b) @ 45 #
          zero_padded 2 (day b) @ 84 # zero_padded 2 (hour b) @ 58 #
          zero_padded 2 (minute b) @ 58 # zero_padded 2 (second b) @ fb)
      = ([year a, month a, day a, hour a, minute a, second a, microsecond a]
          \<le> [year b, month b, day b, hour b, minute b, second b, microsecond b])"
    by (rule padded_block_step [OF ba(1) bb(1) e2])
  show ?thesis
    unfolding isoformat_blocks dt_tuple_def fa_def [symmetric] fb_def [symmetric]
    by (rule e1)
qed

lemma two_digits_mod: "(n div 10 mod 10) * 10 + n mod 10 = (n mod 100 :: nat)"
  using mod_mult2_eq [of n 10 10] by simp

lemma four_digits_mod: "(n div 100 mod 100) * 100 + n mod 100 = (n mod 10000 :: nat)"
  using mod_mult2_eq [of n 100 100] by simp

lemma six_digits_mod: "(n div 100 mod 10000) * 100 + n mod 100 = (n mod 1000000 :: nat)"
  using mod_mult2_eq [of n 100 10000] by simp

lemma zero_padded_2: "zero_padded 2 n = [48 + n div 10 mod 10, 48 + n mod 10]"
  by (simp add: numeral_2_eq_2)

lemma zero_padded_split:
  "zero_padded (a + b) n = zero_padded a (n div 10 ^ b) @ zero_padded b n"
  by (induction b arbitrary: n) (simp_all add: div_mult2_eq)

lemma zero_padded_4: "zero_padded 4 n = zero_padded 2 (n div 100) @ zero_padded 2 n"
  using zero_padded_split [of 2 2 n] by simp

lemma zero_padded_6: "zero_padded 6 n = zero_padded 4 (n div 100) @ zero_padded 2 n"
  using zero_padded_split [of 4 2 n] by simp

lemma parse2_padded: "parse2 (zero_padded 2 n @ r) = Some (n mod 100, r)"
proof -
  have "n div 10 mod 10 < 10" "n mod 10 < 10" by simp_all
  then have "n div 10 mod 10 \<le> 9" "n mod 10 \<le> 9" by linarith+
  then show ?thesis by (simp add: zero_padded_2 ascii_digit_def two_digits_mod)
qed

lemma parse4_padded: "parse4 (zero_padded 4 n @ r) = Some (n mod 10000, r)"
proof -
  have "(n div 100 mod 100) * 100 + n mod 100 = n mod 10000" by (rule four_digits_mod)
  then show ?thesis by (simp add: parse4_def zero_padded_4 parse2_padded)
qed

lemma parse_fraction_padded: "parse_fraction (zero_padded 6 n) = Some (n mod 1000000)"
proof -
  have "parse4 (zero_padded 4 (n div 100) @ zero_padded 2 n)
      = Some (n div 100 mod 10000, zero_padded 2 n)"
    by (rule parse4_padded)
  moreover have "parse2 (zero_padded 2 n) = Some (n mod 100, [])"
    using parse2_padded [of n "[]"] by simp
  ultimately show ?thesis
    using six_digits_mod [of n] by (simp add: parse_fraction_def zero_padded_6)
qed

lemma length_iso_ymd [simp]: "length (iso_ymd y m d) = 10"
  by (simp add: iso_ymd_def py_def)

lemma parse_isoformat_date_iso_ymd:
  "parse_isoformat_date (iso_ymd y m d) = Some (y mod 10000, m mod 100, d mod 100)"
proof -
  have "parse2 (zero_padded 2 d) = Some (d mod 100, [])"
    using parse2_padded [of d "[]"] by simp
  then show ?thesis
    by (simp add: parse_isoformat_date_def iso_ymd_def py_def parse4_padded parse2_padded)
qed

lemma parse_hh_mm_ss_ff_written:
  "parse_hh_mm_ss_ff
     (zero_padded 2 h @ 58 # zero_padded 2 mi @ 58 # zero_padded 2 s @
      (if us \<noteq> 0 then 46 # zero_padded 6 us else []))
   = Some (h mod 100, mi mod 100, s mod 100, us mod 1000000)"
proof (cases "us = 0")
  case True
  have "parse2 (zero_padded 2 s) = Some (s mod 100, [])"
    using parse2_padded [of s "[]"] by simp
  with True show ?thesis by (simp add: parse_hh_mm_ss_ff_def parse2_padded)
next
  case False
  then show ?thesis
    by (simp add: parse_hh_mm_ss_ff_def parse2_padded parse_fraction_padded)
qed

lemma read_extended_isoformat:
  assumes v: "valid_datetime t"
  shows "read_extended (isoformat t) = Naive t"
proof -
  note b = valid_datetime_bounds [OF v]
  define tm where "tm = zero_padded 2 (hour t) @ 58 # zero_padded 2 (minute t) @ 58 #
      zero_padded 2 (second t) @
      (if microsecond t \<noteq> 0 then 46 # zero_padded 6 (microsecond t) else [])"
  have iso: "isoformat t = iso_ymd (year t) (month t) (day t) @ 84 # tm"
    by (simp add: isoformat_def tm_def py_def)
  have tk: "take 10 (isoformat t) = iso_ymd (year t) (month t) (day t)"
    by (simp add: iso)
  have dr: "drop 11 (isoformat t) = tm"
    by (simp add: iso)
  have ln: "length (isoformat t) \<noteq> 10"
    by (simp add: iso)
  have pd: "parse_isoformat_date (iso_ymd (year t) (month t) (day t))
      = Some (year t, month t, day t)"
    using b by (simp add: parse_isoformat_date_iso_ymd)
  have "parse_hh_mm_ss_ff tm
      = Some (hour t mod 100, minute t mod 100, second t mod 100, microsecond t mod 1000000)"
    unfolding tm_def by (rule parse_hh_mm_ss_ff_written)
  then have pt: "parse_hh_mm_ss_ff tm = Some (hour t, minute t, second t, microsecond t)"
    using b by simp
  have mk: "make_datetime (year t) (month t) (day t) (hour t) (minute t) (second t)
      (microsecond t) = Naive t"
  proof -
    have eq: "\<lparr>year = year t, month = month t, day = day t, hour = hour t, minute = minute t,
        second = second t, microsecond = microsecond t\<rparr> = t"
      by (cases t) simp
    show ?thesis by (simp only: make_datetime_def Let_def eq v if_True)
  qed
  show ?thesis
    by (simp add: read_extended_def tk dr ln pd pt mk)
qed

lemma make_datetime_valid: "make_datetime y m d h mi s us = Naive t \<Longrightarrow> valid_datetime t"
  by (auto simp: make_datetime_def Let_def split: if_splits)

lemma read_extended_valid: "read_extended s = Naive t \<Longrightarrow> valid_datetime t"
  by (auto simp: read_extended_def dest: make_datetime_valid
      split: option.splits if_splits prod.splits)

lemma read_extended_not_aware: "read_extended s \<noteq> Aware"
  by (auto simp: read_extended_def make_datetime_def Let_def
      split: option.splits if_splits prod.splits)

subsection \<open>Saving and looking up\<close>

lemma ps_save_fields [simp]:
  "patients (ps_save x st) = patients st" "consultations (ps_save x st) = consultations st"
  by (simp_all add: ps_save_def)

lemma cs_save_fields [simp]:
  "patients (cs_save st) = patients st" "consultations (cs_save st) = consultations st"
  "data_file (cs_save st) = Some (cs_content st)"
  by (simp_all add: cs_save_def ps_save_def cs_content_def)

lemma cs_content_cs_save [simp]: "cs_content (cs_save st) = cs_content st"
  by (simp add: cs_content_def save_content_def)

lemma cs_content_fields:
  "f_patients (cs_content st) = map (\<lambda>(k, p). serialize_patient p) (patients st)"
  "f_consultations (cs_content st) = consultations st"
  by (simp_all add: cs_content_def save_content_def Let_def)


lemma find_loop_Some_iff: "find_loop cs cid = Some i \<longleftrightarrow> is_first_with_id cs cid i"
proof (induction cs arbitrary: i)
  case Nil
  show ?case by (simp add: is_first_with_id_def)
next
  case (Cons c cs)
  show ?case
  proof (cases "c_id c = cid")
    case True
    then show ?thesis by (cases i) (auto simp: is_first_with_id_def)
  next
    case False
    then show ?thesis using Cons.IH
      by (cases i) (auto simp: is_first_with_id_def)
  qed
qed


lemma find_by_id_found:
  "is_first_with_id (consultations st) cid i \<Longrightarrow> find_by_id cid st = (Inr i, st)"
  by (simp add: find_by_id_def find_loop_Some_iff[symmetric])

lemma consultations_update_consultation [simp]:
  "consultations (update_consultation i f st) = (consultations st)[i := f (consultations st ! i)]"
  "patients (update_consultation i f st) = patients st"
  by (simp_all add: update_consultation_def)


lemma ex_state_ids:
  "py ''z'' \<notin> c_id ` set (consultations ex_state)"
  "is_first_with_id (consultations ex_state) (py ''a'') 0"
  "is_first_with_id (consultations ex_state) (py ''b'') 1"
  "is_first_with_id (consultations ex_state) (py ''c'') 2"
  by (simp_all add: ex_state_def ex_consultation_def is_first_with_id_def py_def)

lemma ex_state_statuts:
  "statut (consultations ex_state ! 0) = STATUS_PLANIFIEE"
  "statut (consultations ex_state ! 1) = STATUS_ANNULEE"
  "statut (consultations ex_state ! 2) = STATUS_REALISEE"
  by (simp_all add: ex_state_def ex_consultation_def)

subsection \<open>The operations on a consultation that is found\<close>

lemma ajouter_patient_result:
  "ajouter_patient p st =
     (if isdigit (numero_secu p) \<and> length (numero_secu p) = 15
      then (Inr (), ps_save None (st\<lparr>patients := dict_set (patients st) (numero_secu p) p\<rparr>))
      else (Inl InvalidSecurityNumberError, st))"
  by (simp add: ajouter_patient_def Let_def)




lemma ajouter_prescription_found:
  "is_first_with_id (consultations st) cid i \<Longrightarrow>
   ajouter_prescription cid p st =
     (Inr (), cs_save (update_consultation i
        (\<lambda>c. c\<lparr>prescriptions := prescriptions c @ [serialize_prescription p]\<rparr>) st))"
  by (simp add: ajouter_prescription_def find_by_id_found)

subsection \<open>Texts that the writer accepts\<close>

lemma encodable_Nil [simp]: "encodable []"
  by (simp add: encodable_def)

lemma encodable_Cons [simp]:
  "encodable (c # s) = (\<not> (55296 \<le> c \<and> c \<le> 57343) \<and> encodable s)"
  by (simp add: encodable_def)

lemma encodable_append [simp]: "encodable (a @ b) = (encodable a \<and> encodable b)"
  by (simp add: encodable_def)

lemma encodable_py [simp]: "encodable (py s)"
proof -
  have "\<not> 55296 \<le> (of_char c :: nat)" for c
    using nat_of_char_less_256 [of c] by linarith
  then show ?thesis by (simp add: encodable_def py_def list_all_iff)
qed

lemma encodable_zero_padded [simp]: "encodable (zero_padded w n)"
proof (induction w arbitrary: n)
  case 0
  show ?case by simp
next
  case (Suc w)
  have "n mod 10 < 10" by simp
  then have "encodable [48 + n mod 10]" by simp
  with Suc show ?case by simp
qed

lemma encodable_date_isoformat [simp]: "encodable (date_isoformat d)"
  by (simp add: date_isoformat_def iso_ymd_def)

lemma encodable_isoformat [simp]: "encodable (isoformat t)"
  by (simp add: isoformat_def iso_ymd_def)

lemma encodable_status [simp]:
  "encodable STATUS_PLANIFIEE" "encodable STATUS_REALISEE" "encodable STATUS_ANNULEE"
  by (simp_all add: STATUS_PLANIFIEE_def STATUS_REALISEE_def STATUS_ANNULEE_def)

lemma encodable_str_nat [simp]: "encodable (str_nat n)"
proof (induction n rule: str_nat.induct)
  case (1 n)
  have d: "n mod 10 < 10" by simp
  show ?case
  proof (cases "n < 10")
    case True
    then show ?thesis by (subst str_nat.simps) simp
  next
    case False
    with 1 have "encodable (str_nat (n div 10))" by simp
    with False d show ?thesis by (subst str_nat.simps) simp
  qed
qed

lemma encodable_str_int [simp]: "encodable (str_int i)"
  by (simp add: str_int_def)

lemma ex_patient_writable: "row_writable (serialize_patient ex_patient)"
  by (simp add: row_writable_def serialize_patient_def ex_patient_def Patient_def)

lemma ex_consultation_writable:
  "encodable i \<Longrightarrow> encodable d \<Longrightarrow> encodable s \<Longrightarrow> consultation_writable (ex_consultation i d s)"
  by (simp add: consultation_writable_def ex_consultation_def)

lemma ex_prescriptions_writable:
  "prescription_writable (serialize_prescription ex_kine)"
  "prescription_writable (serialize_prescription ex_medicament)"
  "prescription_writable (serialize_prescription ex_examen)"
  by (simp_all add: prescription_writable_def serialize_prescription_def ex_kine_def
      ex_medicament_def ex_examen_def PrescriptionKinesitherapie_def
      PrescriptionMedicamenteuse_def PrescriptionExamen_def)

lemma ex_state_after_prescription_writable:
  assumes "prescription_writable (serialize_prescription q)"
    and "is_first_with_id (consultations ex_state) cid i"
  shows "json_writable (cs_content (snd (ajouter_prescription cid q ex_state)))"
proof -
  have c: "list_all consultation_writable (consultations ex_state)"
    by (simp add: ex_state_def ex_consultation_writable)
  have i: "i < length (consultations ex_state)"
    using assms(2) by (simp add: is_first_with_id_def)
  then have ci: "consultation_writable (consultations ex_state ! i)"
    using c by (simp add: list_all_length)
  have u: "consultation_writable ((consultations ex_state ! i)
      \<lparr>prescriptions := prescriptions (consultations ex_state ! i) @ [serialize_prescription q]\<rparr>)"
    using ci assms(1) by (simp add: consultation_writable_def)
  have "list_all consultation_writable
      ((consultations ex_state)[i := (consultations ex_state ! i)
        \<lparr>prescriptions := prescriptions (consultations ex_state ! i) @ [serialize_prescription q]\<rparr>])"
    using c u by (auto simp: list_all_iff dest: set_update_subset_insert [THEN subsetD])
  moreover have "list_all row_writable
      (map (\<lambda>(k, p). serialize_patient p) (patients ex_state))"
    by (simp add: ex_state_def ex_patient_writable)
  ultimately show ?thesis
    by (simp add: ajouter_prescription_found [OF assms(2)] json_writable_def cs_content_fields)
qed

subsection \<open>The list of upcoming consultations\<close>

lemma dates_readable_Cons:
  "dates_readable f (c # cs) =
     ((statut c \<in> set planifiee_spellings \<longrightarrow> is_naive (f (date_heure c)))
      \<and> dates_readable f cs)"
  by (simp add: dates_readable_def)

lemma dates_readable_append:
  "dates_readable f (cs @ ds) = (dates_readable f cs \<and> dates_readable f ds)"
  by (auto simp: dates_readable_def)

lemma upcoming_readable:
  "dates_readable f cs \<Longrightarrow> upcoming f now cs = Inr (filter (is_upcoming f now) cs)"
proof (induction cs)
  case Nil
  show ?case by simp
next
  case (Cons c cs)
  from Cons.prems have r: "dates_readable f cs"
    and h: "statut c \<in> set planifiee_spellings \<longrightarrow> is_naive (f (date_heure c))"
    by (simp_all add: dates_readable_Cons)
  have ih: "upcoming f now cs = Inr (filter (is_upcoming f now) cs)"
    using r by (rule Cons.IH)
  show ?case
  proof (cases "statut c \<in> set planifiee_spellings")
    case False
    then have "\<not> is_upcoming f now c" by (simp add: is_upcoming_def)
    with False show ?thesis using ih by simp
  next
    case True
    with h have "is_naive (f (date_heure c))" by simp
    then obtain t where t: "f (date_heure c) = Naive t"
      by (cases "f (date_heure c)") (simp_all add: is_naive_def)
    have "is_upcoming f now c = dt_ge t now" using True t by (simp add: is_upcoming_def)
    then show ?thesis using True t ih by simp
  qed
qed

lemma upcoming_unreadable:
  "\<not> dates_readable f cs \<Longrightarrow>
   upcoming f now cs = Inl ValueError \<or> upcoming f now cs = Inl TypeError"
proof (induction cs)
  case Nil
  then show ?case by (simp add: dates_readable_def)
next
  case (Cons c cs)
  show ?case
  proof (cases "statut c \<in> set planifiee_spellings")
    case False
    with Cons.prems have "\<not> dates_readable f cs" by (simp add: dates_readable_Cons)
    then have "upcoming f now cs = Inl ValueError \<or> upcoming f now cs = Inl TypeError"
      by (rule Cons.IH)
    with False show ?thesis by simp
  next
    case True
    show ?thesis
    proof (cases "f (date_heure c)")
      case (Naive t)
      with Cons.prems have "\<not> dates_readable f cs"
        by (simp add: dates_readable_Cons is_naive_def)
      then have "upcoming f now cs = Inl ValueError \<or> upcoming f now cs = Inl TypeError"
        by (rule Cons.IH)
      with True Naive show ?thesis by auto
    next
      case Aware
      with True show ?thesis by simp
    next
      case Invalid
      with True show ?thesis by simp
    qed
  qed
qed

lemma is_upcoming_iff:
  "is_upcoming f now c =
     ((statut c = STATUS_PLANIFIEE \<or> statut c = py ''planifiee'') \<and>
      (\<exists>t. f (date_heure c) = Naive t \<and> dt_ge t now))"
  by (auto simp: is_upcoming_def planifiee_spellings_def STATUS_PLANIFIEE_def
      split: parsed.splits)

lemma chronological_if_written:
  assumes s: "sorted (map date_heure r)"
    and w: "list_all (\<lambda>c. written_by_isoformat f (date_heure c)) r"
  shows "sorted_wrt (date_heure_le f) r"
proof -
  have "sorted_wrt (\<lambda>a b. date_heure a \<le> date_heure b) r"
    using s by (simp add: sorted_map)
  moreover have "date_heure_le f a b"
    if a: "a \<in> set r" and b: "b \<in> set r" and le: "date_heure a \<le> date_heure b" for a b
  proof -
    from w a have "written_by_isoformat f (date_heure a)" by (simp add: list_all_iff)
    then obtain ta where ta: "f (date_heure a) = Naive ta"
      and va: "valid_datetime ta" and ia: "isoformat ta = date_heure a"
      by (auto simp: written_by_isoformat_def split: parsed.splits)
    from w b have "written_by_isoformat f (date_heure b)" by (simp add: list_all_iff)
    then obtain tb where tb: "f (date_heure b) = Naive tb"
      and vb: "valid_datetime tb" and ib: "isoformat tb = date_heure b"
      by (auto simp: written_by_isoformat_def split: parsed.splits)
    have "(isoformat ta \<le> isoformat tb) = (dt_tuple ta \<le> dt_tuple tb)"
      using va vb by (rule isoformat_le_iff)
    with le ia ib have "dt_tuple ta \<le> dt_tuple tb" by simp
    then show ?thesis by (simp add: date_heure_le_def ta tb dt_ge_def)
  qed
  ultimately show ?thesis by (rule sorted_wrt_mono_rel [rotated])
qed

lemma written_by_isoformat_isoformat:
  "valid_datetime t \<Longrightarrow> written_by_isoformat read_extended (isoformat t)"
  by (simp add: written_by_isoformat_def read_extended_isoformat)

lemma planned_spellings:
  "STATUS_PLANIFIEE \<in> set planifiee_spellings" "py ''planifiee'' \<in> set planifiee_spellings"
  "STATUS_ANNULEE \<notin> set planifiee_spellings" "STATUS_REALISEE \<notin> set planifiee_spellings"
  by (simp_all add: planifiee_spellings_def STATUS_PLANIFIEE_def STATUS_ANNULEE_def
      STATUS_REALISEE_def py_def)

lemma ex_texts_read:
  "read_extended (py ''2031-01-01T09:00:00'') =
     Naive \<lparr>year = 2031, month = 1, day = 1, hour = 9, minute = 0, second = 0, microsecond = 0\<rparr>"
  "read_extended (py ''2031-01-01 10:00:00'') =
     Naive \<lparr>year = 2031, month = 1, day = 1, hour = 10, minute = 0, second = 0, microsecond = 0\<rparr>"
  "read_extended (py ''2031-03-01T09:00:00'') =
     Naive \<lparr>year = 2031, month = 3, day = 1, hour = 9, minute = 0, second = 0, microsecond = 0\<rparr>"
  "read_extended (py ''2029-01-01T09:00:00'') =
     Naive \<lparr>year = 2029, month = 1, day = 1, hour = 9, minute = 0, second = 0, microsecond = 0\<rparr>"
  "read_extended (py ''2031-02-01T08:30:00'') =
     Naive \<lparr>year = 2031, month = 2, day = 1, hour = 8, minute = 30, second = 0, microsecond = 0\<rparr>"
  "read_extended (py ''demain'') = Invalid"
  by (simp_all add: read_extended_def parse_isoformat_date_def parse_hh_mm_ss_ff_def parse4_def
      make_datetime_def valid_datetime_def valid_ymd_def days_in_month_def py_def
      ascii_digit_def)

lemma ex_texts_isoformat:
  "isoformat \<lparr>year = 2031, month = 1, day = 1, hour = 9, minute = 0, second = 0, microsecond = 0\<rparr>
     = py ''2031-01-01T09:00:00''"
  "isoformat \<lparr>year = 2031, month = 3, day = 1, hour = 9, minute = 0, second = 0, microsecond = 0\<rparr>
     = py ''2031-03-01T09:00:00''"
  "isoformat \<lparr>year = 2031, month = 2, day = 1, hour = 8, minute = 30, second = 0, microsecond = 0\<rparr>
     = py ''2031-02-01T08:30:00''"
  by (simp_all add: isoformat_def iso_ymd_def py_def zero_padded_4 zero_padded_2)

lemma ex_texts_valid:
  "valid_datetime \<lparr>year = 2031, month = 1, day = 1, hour = 9, minute = 0, second = 0,
     microsecond = 0\<rparr>"
  "valid_datetime \<lparr>year = 2031, month = 3, day = 1, hour = 9, minute = 0, second = 0,
     microsecond = 0\<rparr>"
  "valid_datetime \<lparr>year = 2031, month = 2, day = 1, hour = 8, minute = 30, second = 0,
     microsecond = 0\<rparr>"
  by (simp_all add: valid_datetime_def valid_ymd_def days_in_month_def is_leap_def)

lemma ex_texts_written:
  "written_by_isoformat read_extended (py ''2031-01-01T09:00:00'')"
  "written_by_isoformat read_extended (py ''2031-03-01T09:00:00'')"
  "written_by_isoformat read_extended (py ''2031-02-01T08:30:00'')"
  using ex_texts_valid [THEN written_by_isoformat_isoformat]
  by (simp_all only: ex_texts_isoformat)

lemma ex_texts_order:
  "\<not> py ''2031-01-01T09:00:00'' \<le> py ''2031-01-01 10:00:00''"
  "py ''2031-01-01T09:00:00'' \<le> py ''2031-02-01T08:30:00''"
  "\<not> py ''2031-03-01T09:00:00'' \<le> py ''2031-01-01T09:00:00''"
  "\<not> py ''2031-03-01T09:00:00'' \<le> py ''2031-02-01T08:30:00''"
  by (simp_all add: py_def)

lemma ex_mixed_upcoming:
  "upcoming read_extended ex_datetime [ex_early, ex_late] = Inr [ex_early, ex_late]"
  by (simp add: ex_early_def ex_late_def ex_consultation_def ex_texts_read
      planned_spellings dt_ge_def dt_tuple_def ex_datetime_def)

lemma ex_agenda_readable: "dates_readable read_extended (consultations ex_agenda_state)"
  by (simp add: dates_readable_def ex_agenda_state_def ex_consultation_def ex_texts_read
      planned_spellings is_naive_def)

lemma ex_agenda_upcoming:
  "filter (is_upcoming read_extended ex_datetime) (consultations ex_agenda_state) =
     [ex_consultation (py ''m'') (py ''2031-03-01T09:00:00'') STATUS_PLANIFIEE,
      ex_consultation (py ''j'') (py ''2031-01-01T09:00:00'') STATUS_PLANIFIEE,
      ex_consultation (py ''f'') (py ''2031-02-01T08:30:00'') (py ''planifiee'')]"
  by (simp add: is_upcoming_def ex_agenda_state_def ex_consultation_def ex_texts_read
      planned_spellings dt_ge_def dt_tuple_def ex_datetime_def)

lemma ex_agenda_sorted:
  "sort_key date_heure
     [ex_consultation (py ''m'') (py ''2031-03-01T09:00:00'') STATUS_PLANIFIEE,
      ex_consultation (py ''j'') (py ''2031-01-01T09:00:00'') STATUS_PLANIFIEE,
      ex_consultation (py ''f'') (py ''2031-02-01T08:30:00'') (py ''planifiee'')] =
     [ex_consultation (py ''j'') (py ''2031-01-01T09:00:00'') STATUS_PLANIFIEE,
      ex_consultation (py ''f'') (py ''2031-02-01T08:30:00'') (py ''planifiee''),
      ex_consultation (py ''m'') (py ''2031-03-01T09:00:00'') STATUS_PLANIFIEE]"
proof -
  have d: "date_heure (ex_consultation i d s) = d" for i d s
    by (simp add: ex_consultation_def)
  show ?thesis by (simp add: d ex_texts_order)
qed

lemma ex_unreadable: "\<not> dates_readable read_extended (consultations ex_unreadable_state)"
  by (simp add: dates_readable_def ex_unreadable_state_def ex_consultation_def ex_texts_read
      planned_spellings is_naive_def)

lemma ex_unreadable_raises:
  "lister_consultations_a_venir read_extended ex_datetime ex_unreadable_state
     = (Inl ValueError, ex_unreadable_state)"
  by (simp add: lister_consultations_a_venir_def ex_unreadable_state_def ex_consultation_def
      ex_texts_read planned_spellings)

lemma ex_offset_unreadable:
  "\<not> dates_readable read_with_offset (consultations ex_offset_state)"
  by (simp add: dates_readable_def ex_offset_state_def ex_consultation_def read_with_offset_def
      planned_spellings is_naive_def)

lemma ex_offset_raises:
  "lister_consultations_a_venir read_with_offset ex_datetime ex_offset_state
     = (Inl TypeError, ex_offset_state)"
  by (simp add: lister_consultations_a_venir_def ex_offset_state_def ex_consultation_def
      read_with_offset_def planned_spellings)

subsection \<open>Planning a consultation\<close>

text \<open>
  \<^verbatim>\<open>planifier_consultation\<close> for a patient of the store; and a consultation that has just
  been planned is listed if and only if its date-time is not before now, when the library
  reads back what \<^verbatim>\<open>isoformat\<close> has written.
\<close>

lemma planifier_consultation_found:
  "dict_get (patients st) num = Some p \<Longrightarrow>
   planifier_consultation u num t med mo st =
     (let c = \<lparr>c_id = u, patient_num = num, date_heure = isoformat t, medecin = med,
               motif = mo, diagnostic = None, prescriptions = [], statut = STATUS_PLANIFIEE\<rparr>
      in (Inr c,
          cs_save (st\<lparr>consultations := consultations st @ [c],
                      patients := dict_set (patients st) num
                        (ajouter_consultation (length (consultations st)) p)\<rparr>)))"
  by (simp add: planifier_consultation_def rechercher_patient_def Let_def)


lemma planifier_then_lister:
  assumes p: "dict_get (patients st) num = Some p"
    and f: "f (isoformat t) = Naive t"
    and r: "dates_readable f (consultations st)"
  shows "\<exists>c st' l. planifier_consultation u num t med mo st = (Inr c, st') \<and>
      statut c = STATUS_PLANIFIEE \<and>
      lister_consultations_a_venir f now st' = (Inr l, st') \<and>
      (c \<in> set l) = dt_ge t now"
proof -
  define c where "c = \<lparr>c_id = u, patient_num = num, date_heure = isoformat t, medecin = med,
      motif = mo, diagnostic = None, prescriptions = [], statut = STATUS_PLANIFIEE\<rparr>"
  define st' where "st' = cs_save (st\<lparr>consultations := consultations st @ [c],
      patients := dict_set (patients st) num
        (ajouter_consultation (length (consultations st)) p)\<rparr>)"
  have pl: "planifier_consultation u num t med mo st = (Inr c, st')"
    using planifier_consultation_found [OF p] by (simp add: c_def st'_def Let_def)
  have cs: "consultations st' = consultations st @ [c]"
    by (simp add: st'_def)
  have rd: "f (date_heure c) = Naive t"
    using f by (simp add: c_def)
  have up: "is_upcoming f now c = dt_ge t now"
    using rd by (simp add: is_upcoming_def planned_spellings c_def)
  have "dates_readable f [c]"
    using rd by (simp add: dates_readable_def is_naive_def)
  with r have r': "dates_readable f (consultations st')"
    by (simp add: cs dates_readable_append)
  have l: "lister_consultations_a_venir f now st'
      = (Inr (sort_key date_heure (filter (is_upcoming f now) (consultations st'))), st')"
    by (simp add: lister_consultations_a_venir_def upcoming_readable [OF r'])
  have m: "(c \<in> set (sort_key date_heure (filter (is_upcoming f now) (consultations st'))))
      = dt_ge t now"
    using up by (auto simp: cs)
  have s: "statut c = STATUS_PLANIFIEE" by (simp add: c_def)
  show ?thesis using pl s l m by blast
qed

subsection \<open>Serialized prescriptions\<close>

lemma class_name_distinct:
  "py ''PrescriptionMedicamenteuse'' \<noteq> py ''PrescriptionExamen''"
  "py ''PrescriptionMedicamenteuse'' \<noteq> py ''PrescriptionKinesitherapie''"
  "py ''PrescriptionExamen'' \<noteq> py ''PrescriptionKinesitherapie''"
  by (simp_all add: py_def)

lemma serialize_prescription_tag:
  "serialize_prescription p =
     \<lparr>r_type = (case variant p of
                   Medicamenteuse f \<Rightarrow> py ''PrescriptionMedicamenteuse''
                 | Examen l \<Rightarrow> py ''PrescriptionExamen''
                 | Kinesitherapie n z \<Rightarrow> py ''PrescriptionKinesitherapie''),
      r_description = description p, r_posologie = posologie p, r_duree = duree p\<rparr>"
  by (cases "variant p") (simp_all add: serialize_prescription_def)

section \<open>The claims\<close>

text \<open>
  C1. The claim: \<^verbatim>\<open>ajouter_patient\<close> raises \<^verbatim>\<open>InvalidSecurityNumberError\<close> and leaves the store
  unchanged whenever the security number is not a string of exactly fifteen ASCII digits.
  The method tests \<^verbatim>\<open>num.isdigit()\<close>, which also holds of digits outside ASCII: for the
  number made of fifteen superscript twos, not one of which is an ASCII digit, the method
  returns normally and stores the patient, whereas \<^verbatim>\<open>validate_security_number\<close> of
  utils/validators.py rejects this number.
\<close>

theorem ajouter_patient_superscript_digits:
  "length ex_superscript = 15 \<and> \<not> list_all ascii_digit ex_superscript \<and>
   validate_security_number ex_superscript = Inl InvalidSecurityNumberError \<and>
   fst (ajouter_patient (Patient ex_superscript n pr d a t) st) = Inr () \<and>
   dict_get (patients (snd (ajouter_patient (Patient ex_superscript n pr d a t) st)))
     ex_superscript = Some (Patient ex_superscript n pr d a t)"
proof -
  have len: "length ex_superscript = 15" by (simp add: ex_superscript_def)
  have na: "\<not> list_all ascii_digit ex_superscript"
    by (simp add: ex_superscript_def ascii_digit_def)
  have d: "isdigit_char 178"
    by (simp add: isdigit_char_def in_ranges_def other_digit_ranges_def)
  have nd: "\<not> isdecimal_char 178"
    by (simp add: isdecimal_char_def in_ranges_def decimal_ranges_def)
  have dig: "isdigit ex_superscript"
    by (simp add: isdigit_def ex_superscript_def d)
  have v: "validate_security_number ex_superscript = Inl InvalidSecurityNumberError"
    by (simp add: validate_security_number_def ex_superscript_def nd)
  have num: "numero_secu (Patient ex_superscript n pr d a t) = ex_superscript"
    by (simp add: Patient_def)
  show ?thesis using len na v dig num
    by (simp add: ajouter_patient_result dict_get_dict_set)
qed





text \<open>
  C4. For a patient whose security number is fifteen ASCII digits, \<^verbatim>\<open>ajouter_patient\<close> stores
  the patient, and \<^verbatim>\<open>rechercher_patient\<close> with that number then returns this very patient,
  hence one with the same security number, surname, given name, birth date, address and
  phone. \<^verbatim>\<open>ajouter_patient\<close> itself returns normally when the writer accepts the object that
  \<^verbatim>\<open>_save\<close> then writes, that is when none of its texts holds a surrogate code point.
\<close>

theorem add_then_find:
  "length (numero_secu p) = 15 \<and> list_all ascii_digit (numero_secu p) \<Longrightarrow>
   (json_writable (save_content None (st\<lparr>patients := dict_set (patients st) (numero_secu p) p\<rparr>))
      \<longrightarrow> fst (ajouter_patient p st) = Inr ()) \<and>
   rechercher_patient (numero_secu p) (snd (ajouter_patient p st))
     = (Inr p, snd (ajouter_patient p st))"
proof -
  assume h: "length (numero_secu p) = 15 \<and> list_all ascii_digit (numero_secu p)"
  then have "numero_secu p \<noteq> []" by auto
  with h have "isdigit (numero_secu p)" by (simp add: ascii_digits_isdigit)
  with h show ?thesis
    by (simp add: ajouter_patient_result rechercher_patient_def dict_get_dict_set)
qed

theorem add_then_find_witness:
  "length (numero_secu ex_patient) = 15 \<and> list_all ascii_digit (numero_secu ex_patient) \<and>
   json_writable (save_content None
     (ex_state\<lparr>patients := dict_set (patients ex_state) (numero_secu ex_patient) ex_patient\<rparr>)) \<and>
   fst (ajouter_patient ex_patient ex_state) = Inr () \<and>
   rechercher_patient (numero_secu ex_patient) (snd (ajouter_patient ex_patient ex_state))
     = (Inr ex_patient, snd (ajouter_patient ex_patient ex_state))"
proof -
  have h: "length (numero_secu ex_patient) = 15 \<and> list_all ascii_digit (numero_secu ex_patient)"
    by (simp add: ex_patient_def Patient_def py_def ascii_digit_def)
  have n: "numero_secu ex_patient = py ''123456789012345''"
    by (simp add: ex_patient_def Patient_def)
  have w: "json_writable (save_content None
      (ex_state\<lparr>patients := dict_set (patients ex_state) (numero_secu ex_patient) ex_patient\<rparr>))"
    by (simp add: n json_writable_def save_content_def ex_state_def ex_patient_writable)
  from add_then_find [OF h, of ex_state] h w show ?thesis by blast
qed

text \<open>
  C5. For a security number that is not a key of the patient store,
  \<^verbatim>\<open>planifier_consultation\<close> raises \<^verbatim>\<open>PatientNotFoundError\<close> and the state, so the collection
  of consultations too, is the one before the call.
\<close>

theorem planifier_unknown_patient:
  "num \<notin> fst ` set (patients st) \<Longrightarrow>
   planifier_consultation u num t med mo st = (Inl PatientNotFoundError, st)"
  by (simp add: planifier_consultation_def rechercher_patient_def dict_get_None_iff[symmetric])

theorem planifier_unknown_patient_witness:
  "py ''999999999999999'' \<notin> fst ` set (patients ex_state) \<and>
   planifier_consultation (py ''d'') (py ''999999999999999'') ex_datetime (py ''Dr Martin'')
     (py ''controle'') ex_state = (Inl PatientNotFoundError, ex_state)"
proof -
  have h: "py ''999999999999999'' \<notin> fst ` set (patients ex_state)"
    by (simp add: ex_state_def py_def)
  from planifier_unknown_patient [OF h] h show ?thesis by blast
qed




text \<open>
  C7. The claim: \<^verbatim>\<open>lister_consultations_a_venir\<close> returns exactly the consultations whose
  status is the planned one and whose date-time is not before now, in ascending order of
  date-time, every other status being excluded. The method accepts two spellings of the
  status, the literal of class \<^verbatim>\<open>Consultation\<close> and the same word without its accent, and it
  sorts by the text of the date-time. In the state below the consultation of 10:00, whose
  status is not the planned literal, is returned, and it comes before the one of 09:00.
\<close>

theorem lister_consultations_a_venir_counterexample:
  "lister_consultations_a_venir read_extended ex_datetime ex_mixed_state
     = (Inr [ex_late, ex_early], ex_mixed_state) \<and>
   statut ex_late \<noteq> STATUS_PLANIFIEE \<and>
   read_extended (date_heure ex_late) =
     Naive \<lparr>year = 2031, month = 1, day = 1, hour = 10, minute = 0, second = 0, microsecond = 0\<rparr> \<and>
   read_extended (date_heure ex_early) =
     Naive \<lparr>year = 2031, month = 1, day = 1, hour = 9, minute = 0, second = 0, microsecond = 0\<rparr> \<and>
   \<not> sorted_wrt (date_heure_le read_extended) [ex_late, ex_early]"
proof -
  have st: "statut ex_late \<noteq> STATUS_PLANIFIEE"
    by (simp add: ex_late_def ex_consultation_def STATUS_PLANIFIEE_def py_def)
  have dl: "date_heure ex_late = py ''2031-01-01 10:00:00''"
    and de: "date_heure ex_early = py ''2031-01-01T09:00:00''"
    by (simp_all add: ex_late_def ex_early_def ex_consultation_def)
  have n: "\<not> date_heure_le read_extended ex_late ex_early"
    by (simp add: date_heure_le_def dl de ex_texts_read dt_ge_def dt_tuple_def)
  have so: "sort_key date_heure [ex_early, ex_late] = [ex_late, ex_early]"
    by (simp add: dl de ex_texts_order)
  have c: "consultations ex_mixed_state = [ex_early, ex_late]"
    by (simp add: ex_mixed_state_def)
  have l: "lister_consultations_a_venir read_extended ex_datetime ex_mixed_state
      = (Inr [ex_late, ex_early], ex_mixed_state)"
    by (simp only: lister_consultations_a_venir_def c ex_mixed_upcoming sum.case so)
  show ?thesis using l st n by (simp add: dl de ex_texts_read)
qed

text \<open>
  C7, amended. Whatever texts the library reads: when it reads as a naive date-time the
  date-time of every consultation with one of the two spellings of the planned status,
  \<^verbatim>\<open>lister_consultations_a_venir\<close> returns, the state being as before, exactly the
  consultations whose status is the planned literal or its spelling without accent and
  whose date-time is not before now; they come in ascending order of the text of their
  date-time, those of equal text in the order of the collection; this is ascending order of
  date-time when the texts are those \<^verbatim>\<open>isoformat\<close> writes, as \<^verbatim>\<open>planifier_consultation\<close> stores
  them. Otherwise the call raises \<^verbatim>\<open>ValueError\<close> or \<^verbatim>\<open>TypeError\<close>.
\<close>

theorem lister_consultations_a_venir_spec:
  "(dates_readable f (consultations st) \<longrightarrow>
      (\<exists>r. lister_consultations_a_venir f now st = (Inr r, st) \<and>
           r = sort_key date_heure (filter (is_upcoming f now) (consultations st)) \<and>
           set r = {c \<in> set (consultations st).
                     (statut c = STATUS_PLANIFIEE \<or> statut c = py ''planifiee'') \<and>
                     (\<exists>t. f (date_heure c) = Naive t \<and> dt_ge t now)} \<and>
           sorted (map date_heure r) \<and>
           (list_all (\<lambda>c. written_by_isoformat f (date_heure c)) r \<longrightarrow>
              sorted_wrt (date_heure_le f) r))) \<and>
   (\<not> dates_readable f (consultations st) \<longrightarrow>
      lister_consultations_a_venir f now st = (Inl ValueError, st) \<or>
      lister_consultations_a_venir f now st = (Inl TypeError, st))"
proof (intro conjI impI)
  assume rd: "dates_readable f (consultations st)"
  define r where "r = sort_key date_heure (filter (is_upcoming f now) (consultations st))"
  have l: "lister_consultations_a_venir f now st = (Inr r, st)"
    by (simp add: lister_consultations_a_venir_def upcoming_readable [OF rd] r_def)
  have s: "set r = {c \<in> set (consultations st).
      (statut c = STATUS_PLANIFIEE \<or> statut c = py ''planifiee'') \<and>
      (\<exists>t. f (date_heure c) = Naive t \<and> dt_ge t now)}"
    unfolding r_def by (auto simp: is_upcoming_iff)
  have so: "sorted (map date_heure r)" by (simp add: r_def)
  have ch: "list_all (\<lambda>c. written_by_isoformat f (date_heure c)) r \<longrightarrow>
      sorted_wrt (date_heure_le f) r"
    using so by (auto intro: chronological_if_written)
  show "\<exists>r. lister_consultations_a_venir f now st = (Inr r, st) \<and>
      r = sort_key date_heure (filter (is_upcoming f now) (consultations st)) \<and>
      set r = {c \<in> set (consultations st).
                (statut c = STATUS_PLANIFIEE \<or> statut c = py ''planifiee'') \<and>
                (\<exists>t. f (date_heure c) = Naive t \<and> dt_ge t now)} \<and>
      sorted (map date_heure r) \<and>
      (list_all (\<lambda>c. written_by_isoformat f (date_heure c)) r \<longrightarrow>
         sorted_wrt (date_heure_le f) r)"
    using l s so ch r_def by blast
next
  assume "\<not> dates_readable f (consultations st)"
  then have "upcoming f now (consultations st) = Inl ValueError \<or>
      upcoming f now (consultations st) = Inl TypeError"
    by (rule upcoming_unreadable)
  then show "lister_consultations_a_venir f now st = (Inl ValueError, st) \<or>
      lister_consultations_a_venir f now st = (Inl TypeError, st)"
    by (auto simp: lister_consultations_a_venir_def)
qed

theorem lister_consultations_a_venir_spec_witness:
  "dates_readable read_extended (consultations ex_agenda_state) \<and>
   (\<exists>r. lister_consultations_a_venir read_extended ex_datetime ex_agenda_state
          = (Inr r, ex_agenda_state) \<and>
        r = [ex_consultation (py ''j'') (py ''2031-01-01T09:00:00'') STATUS_PLANIFIEE,
             ex_consultation (py ''f'') (py ''2031-02-01T08:30:00'') (py ''planifiee''),
             ex_consultation (py ''m'') (py ''2031-03-01T09:00:00'') STATUS_PLANIFIEE] \<and>
        set r = {c \<in> set (consultations ex_agenda_state).
                  (statut c = STATUS_PLANIFIEE \<or> statut c = py ''planifiee'') \<and>
                  (\<exists>t. read_extended (date_heure c) = Naive t \<and> dt_ge t ex_datetime)} \<and>
        sorted (map date_heure r) \<and>
        list_all (\<lambda>c. written_by_isoformat read_extended (date_heure c)) r \<and>
        sorted_wrt (date_heure_le read_extended) r) \<and>
   \<not> dates_readable read_extended (consultations ex_unreadable_state) \<and>
   lister_consultations_a_venir read_extended ex_datetime ex_unreadable_state
     = (Inl ValueError, ex_unreadable_state) \<and>
   \<not> dates_readable read_with_offset (consultations ex_offset_state) \<and>
   lister_consultations_a_venir read_with_offset ex_datetime ex_offset_state
     = (Inl TypeError, ex_offset_state)"
proof -
  define r where "r = sort_key date_heure
      (filter (is_upcoming read_extended ex_datetime) (consultations ex_agenda_state))"
  have rv: "r = [ex_consultation (py ''j'') (py ''2031-01-01T09:00:00'') STATUS_PLANIFIEE,
      ex_consultation (py ''f'') (py ''2031-02-01T08:30:00'') (py ''planifiee''),
      ex_consultation (py ''m'') (py ''2031-03-01T09:00:00'') STATUS_PLANIFIEE]"
    unfolding r_def ex_agenda_upcoming by (rule ex_agenda_sorted)
  have d: "date_heure (ex_consultation i d s) = d" for i d s
    by (simp add: ex_consultation_def)
  have wa: "list_all (\<lambda>c. written_by_isoformat read_extended (date_heure c)) r"
    by (simp add: rv d ex_texts_written)
  from lister_consultations_a_venir_spec [of read_extended ex_agenda_state ex_datetime]
    ex_agenda_readable
  have "\<exists>r'. lister_consultations_a_venir read_extended ex_datetime ex_agenda_state
          = (Inr r', ex_agenda_state) \<and>
        r' = r \<and>
        set r' = {c \<in> set (consultations ex_agenda_state).
                  (statut c = STATUS_PLANIFIEE \<or> statut c = py ''planifiee'') \<and>
                  (\<exists>t. read_extended (date_heure c) = Naive t \<and> dt_ge t ex_datetime)} \<and>
        sorted (map date_heure r') \<and>
        (list_all (\<lambda>c. written_by_isoformat read_extended (date_heure c)) r' \<longrightarrow>
          sorted_wrt (date_heure_le read_extended) r')"
    unfolding r_def by blast
  then have "\<exists>r'. lister_consultations_a_venir read_extended ex_datetime ex_agenda_state
          = (Inr r', ex_agenda_state) \<and>
        r' = r \<and>
        set r' = {c \<in> set (consultations ex_agenda_state).
                  (statut c = STATUS_PLANIFIEE \<or> statut c = py ''planifiee'') \<and>
                  (\<exists>t. read_extended (date_heure c) = Naive t \<and> dt_ge t ex_datetime)} \<and>
        sorted (map date_heure r') \<and>
        list_all (\<lambda>c. written_by_isoformat read_extended (date_heure c)) r' \<and>
        sorted_wrt (date_heure_le read_extended) r'"
    using wa by blast
  then show ?thesis
    unfolding rv
    using ex_agenda_readable ex_unreadable ex_unreadable_raises ex_offset_unreadable
      ex_offset_raises
    by blast
qed



text \<open>
  C9. On the consultation with the id, whatever its status, \<^verbatim>\<open>ajouter_prescription\<close>
  appends to the prescriptions of that consultation a record of four entries: the name of
  the class of the prescription, which differs from one class to another, and the three
  shared attributes (description, posology, duration); it returns normally when the writer
  accepts the object \<^verbatim>\<open>_save\<close> then writes. The attributes of the subclass (frequency,
  laboratory, number of sessions, zone) play no part: two prescriptions of one class that
  differ in them only leave the same result.
\<close>

theorem ajouter_prescription_spec:
  "is_first_with_id (consultations st) cid i \<Longrightarrow>
   (json_writable (cs_content (snd (ajouter_prescription cid p st))) \<longrightarrow>
      fst (ajouter_prescription cid p st) = Inr ()) \<and>
   consultations (snd (ajouter_prescription cid p st)) =
     (consultations st)[i := (consultations st ! i)
        \<lparr>prescriptions := prescriptions (consultations st ! i) @
           [\<lparr>r_type = (case variant p of
                          Medicamenteuse f \<Rightarrow> py ''PrescriptionMedicamenteuse''
                        | Examen l \<Rightarrow> py ''PrescriptionExamen''
                        | Kinesitherapie n z \<Rightarrow> py ''PrescriptionKinesitherapie''),
             r_description = description p, r_posologie = posologie p,
             r_duree = duree p\<rparr>]\<rparr>] \<and>
   py ''PrescriptionMedicamenteuse'' \<noteq> py ''PrescriptionExamen'' \<and>
   py ''PrescriptionMedicamenteuse'' \<noteq> py ''PrescriptionKinesitherapie'' \<and>
   py ''PrescriptionExamen'' \<noteq> py ''PrescriptionKinesitherapie'' \<and>
   ajouter_prescription cid (p\<lparr>variant := Medicamenteuse fa\<rparr>) st
     = ajouter_prescription cid (p\<lparr>variant := Medicamenteuse fb\<rparr>) st \<and>
   ajouter_prescription cid (p\<lparr>variant := Examen la\<rparr>) st
     = ajouter_prescription cid (p\<lparr>variant := Examen lb\<rparr>) st \<and>
   ajouter_prescription cid (p\<lparr>variant := Kinesitherapie na za\<rparr>) st
     = ajouter_prescription cid (p\<lparr>variant := Kinesitherapie nb zb\<rparr>) st"
proof -
  assume f: "is_first_with_id (consultations st) cid i"
  have a: "ajouter_prescription cid q st =
      (Inr (), cs_save (update_consultation i
        (\<lambda>c. c\<lparr>prescriptions := prescriptions c @ [serialize_prescription q]\<rparr>) st))" for q
    using f by (rule ajouter_prescription_found)
  have m: "serialize_prescription (p\<lparr>variant := Medicamenteuse fa\<rparr>)
      = serialize_prescription (p\<lparr>variant := Medicamenteuse fb\<rparr>)"
    by (simp add: serialize_prescription_def)
  have e: "serialize_prescription (p\<lparr>variant := Examen la\<rparr>)
      = serialize_prescription (p\<lparr>variant := Examen lb\<rparr>)"
    by (simp add: serialize_prescription_def)
  have k: "serialize_prescription (p\<lparr>variant := Kinesitherapie na za\<rparr>)
      = serialize_prescription (p\<lparr>variant := Kinesitherapie nb zb\<rparr>)"
    by (simp add: serialize_prescription_def)
  show ?thesis
    by (simp add: a m e k class_name_distinct serialize_prescription_tag [symmetric])
qed

theorem ajouter_prescription_spec_witness:
  "is_first_with_id (consultations ex_state) (py ''b'') 1 \<and>
   statut (consultations ex_state ! 1) = STATUS_ANNULEE \<and>
   json_writable (cs_content (snd (ajouter_prescription (py ''b'') ex_kine ex_state))) \<and>
   fst (ajouter_prescription (py ''b'') ex_kine ex_state) = Inr () \<and>
   consultations (snd (ajouter_prescription (py ''b'') ex_kine ex_state)) =
     (consultations ex_state)[1 := (consultations ex_state ! 1)
        \<lparr>prescriptions := prescriptions (consultations ex_state ! 1) @
           [\<lparr>r_type = py ''PrescriptionKinesitherapie'', r_description = description ex_kine,
             r_posologie = posologie ex_kine, r_duree = duree ex_kine\<rparr>]\<rparr>] \<and>
   ajouter_prescription (py ''b'') (ex_kine\<lparr>variant := Kinesitherapie 12 (py ''genou'')\<rparr>) ex_state
     = ajouter_prescription (py ''b'') (ex_kine\<lparr>variant := Kinesitherapie 3 (py ''dos'')\<rparr>) ex_state \<and>
   is_first_with_id (consultations ex_state) (py ''a'') 0 \<and>
   statut (consultations ex_state ! 0) = STATUS_PLANIFIEE \<and>
   json_writable (cs_content (snd (ajouter_prescription (py ''a'') ex_medicament ex_state))) \<and>
   fst (ajouter_prescription (py ''a'') ex_medicament ex_state) = Inr () \<and>
   consultations (snd (ajouter_prescription (py ''a'') ex_medicament ex_state)) =
     (consultations ex_state)[0 := (consultations ex_state ! 0)
        \<lparr>prescriptions := prescriptions (consultations ex_state ! 0) @
           [\<lparr>r_type = py ''PrescriptionMedicamenteuse'',
             r_description = py ''amoxicilline'', r_posologie = py ''500 mg'',
             r_duree = py ''7 jours''\<rparr>]\<rparr>] \<and>
   is_first_with_id (consultations ex_state) (py ''c'') 2 \<and>
   statut (consultations ex_state ! 2) = STATUS_REALISEE \<and>
   json_writable (cs_content (snd (ajouter_prescription (py ''c'') ex_examen ex_state))) \<and>
   fst (ajouter_prescription (py ''c'') ex_examen ex_state) = Inr () \<and>
   consultations (snd (ajouter_prescription (py ''c'') ex_examen ex_state)) =
     (consultations ex_state)[2 := (consultations ex_state ! 2)
        \<lparr>prescriptions := prescriptions (consultations ex_state ! 2) @
           [\<lparr>r_type = py ''PrescriptionExamen'', r_description = py ''radio du genou'',
             r_posologie = py ''n/a'', r_duree = py ''n/a''\<rparr>]\<rparr>]"
proof -
  have vk: "variant ex_kine = Kinesitherapie 12 (py ''genou'')"
    by (simp add: ex_kine_def PrescriptionKinesitherapie_def)
  have vm: "variant ex_medicament = Medicamenteuse (py ''3 par jour'')"
    "description ex_medicament = py ''amoxicilline''" "posologie ex_medicament = py ''500 mg''"
    "duree ex_medicament = py ''7 jours''"
    by (simp_all add: ex_medicament_def PrescriptionMedicamenteuse_def)
  have ve: "variant ex_examen = Examen None"
    "description ex_examen = py ''radio du genou''" "posologie ex_examen = py ''n/a''"
    "duree ex_examen = py ''n/a''"
    by (simp_all add: ex_examen_def PrescriptionExamen_def)
  note w = ex_state_after_prescription_writable [OF ex_prescriptions_writable(1) ex_state_ids(3)]
    ex_state_after_prescription_writable [OF ex_prescriptions_writable(2) ex_state_ids(2)]
    ex_state_after_prescription_writable [OF ex_prescriptions_writable(3) ex_state_ids(4)]
  from ajouter_prescription_spec [OF ex_state_ids(3), where p = ex_kine and na = 12
        and za = "py ''genou''" and nb = 3 and zb = "py ''dos''"]
    ajouter_prescription_spec [OF ex_state_ids(2), where p = ex_medicament]
    ajouter_prescription_spec [OF ex_state_ids(4), where p = ex_examen]
    w ex_state_ids ex_state_statuts
  show ?thesis by (simp add: vk vm ve)
qed



end
